theory Spec2Isabelle
  imports Complex_Main
begin

section \<open>Documents: JavaScript values\<close>

text \<open>
  The validator (\<^verbatim>\<open>validation.ts\<close>, which follows the tests of the helpers in
  \<^verbatim>\<open>src/helpers.test.ts\<close>) receives a document of type
  \<^verbatim>\<open>Record<string, unknown>\<close>: plain data of any shape. The model covers the data
  values of JavaScript: \<^verbatim>\<open>undefined\<close>, \<^verbatim>\<open>null\<close>, booleans, numbers,
  strings, arrays and plain objects. Functions, symbols, bigints, getters and properties
  inherited from a prototype are outside the model.

  A number is \<^verbatim>\<open>NaN\<close>, an infinity, or finite; a finite number is modelled by its exact
  value (every finite double is a rational, and \<open>-0\<close> is \<open>0\<close>: the code never tells them
  apart). A string is a list of code units below 256, read as Latin-1. An object is the
  list of its own properties, looked up by key (first entry wins).
\<close>

datatype jsnum = NaN | PosInf | NegInf | Fin rat

datatype jsval =
    JUndefined
  | JNull
  | JBool bool
  | JNum jsnum
  | JStr string
  | JArr "jsval list"
  | JObj "(string \<times> jsval) list"

datatype js_error = TypeError

text \<open>The operators of the language the validator uses, on these values.\<close>

fun typeof :: "jsval \<Rightarrow> string" where
  "typeof JUndefined = ''undefined''"
| "typeof JNull = ''object''"
| "typeof (JBool b) = ''boolean''"
| "typeof (JNum n) = ''number''"
| "typeof (JStr s) = ''string''"
| "typeof (JArr xs) = ''object''"
| "typeof (JObj kvs) = ''object''"

text \<open>\<^verbatim>\<open>!v\<close> is \<open>\<not> truthy v\<close>.\<close>

fun truthy :: "jsval \<Rightarrow> bool" where
  "truthy JUndefined = False"
| "truthy JNull = False"
| "truthy (JBool b) = b"
| "truthy (JNum NaN) = False"
| "truthy (JNum (Fin r)) = (r \<noteq> 0)"
| "truthy (JNum n) = True"
| "truthy (JStr s) = (s \<noteq> [])"
| "truthy (JArr xs) = True"
| "truthy (JObj kvs) = True"

fun isArray :: "jsval \<Rightarrow> bool" where
  "isArray (JArr xs) = True"
| "isArray v = False"

fun is_nullish :: "jsval \<Rightarrow> bool" where
  "is_nullish JUndefined = True"
| "is_nullish JNull = True"
| "is_nullish v = False"

text \<open>\<^verbatim>\<open>typeof v === 'object' && v !== null\<close>\<close>

definition is_object :: "jsval \<Rightarrow> bool" where
  "is_object v = (typeof v = ''object'' \<and> v \<noteq> JNull)"

text \<open>Decimal digits of a loop index or of a length.\<close>

fun show_nat :: "nat \<Rightarrow> string" where
  "show_nat n =
     (if n < 10 then [char_of (48 + n)]
      else show_nat (n div 10) @ [char_of (48 + n mod 10)])"

declare show_nat.simps [simp del]

text \<open>
  \<^verbatim>\<open>v[k]\<close> on a value that is not \<^verbatim>\<open>null\<close> or \<^verbatim>\<open>undefined\<close>: an own
  property of an object; the length or an element of an array; \<^verbatim>\<open>undefined\<close> on a
  boolean, a number or a string (the keys the code reads there are \<^verbatim>\<open>_type\<close>,
  \<^verbatim>\<open>_key\<close>, \<^verbatim>\<open>value\<close>, \<^verbatim>\<open>min\<close>, \<^verbatim>\<open>max\<close>, \<^verbatim>\<open>pattern\<close> and
  \<^verbatim>\<open>name\<close>, none of which a primitive has).
\<close>

fun get :: "jsval \<Rightarrow> string \<Rightarrow> jsval" where
  "get (JObj kvs) k = (case map_of kvs k of Some v \<Rightarrow> v | None \<Rightarrow> JUndefined)"
| "get (JArr xs) k =
     (if k = ''length'' then JNum (Fin (of_nat (length xs)))
      else case map_of (zip (map show_nat [0..<length xs]) xs) k of
             Some v \<Rightarrow> v | None \<Rightarrow> JUndefined)"
| "get v k = JUndefined"

text \<open>The same read where the receiver may be anything: it throws on \<^verbatim>\<open>null\<close> and
  \<^verbatim>\<open>undefined\<close>.\<close>

definition get_prop :: "jsval \<Rightarrow> string \<Rightarrow> js_error + jsval" where
  "get_prop v k = (if is_nullish v then Inl TypeError else Inr (get v k))"

text \<open>\<^verbatim>\<open>k in v\<close> for an object or an array \<open>v\<close>.\<close>

fun has_key :: "string \<Rightarrow> jsval \<Rightarrow> bool" where
  "has_key k (JObj kvs) = (k \<in> fst ` set kvs)"
| "has_key k (JArr xs) = (k = ''length'' \<or> k \<in> set (map show_nat [0..<length xs]))"
| "has_key k v = False"

text \<open>Comparisons of numbers: every comparison with \<^verbatim>\<open>NaN\<close> is false.\<close>

fun num_lt :: "jsnum \<Rightarrow> jsnum \<Rightarrow> bool" where
  "num_lt NaN b = False"
| "num_lt a NaN = False"
| "num_lt PosInf b = False"
| "num_lt a NegInf = False"
| "num_lt NegInf b = True"
| "num_lt a PosInf = True"
| "num_lt (Fin a) (Fin b) = (a < b)"

fun num_le :: "jsnum \<Rightarrow> jsnum \<Rightarrow> bool" where
  "num_le NaN b = False"
| "num_le a NaN = False"
| "num_le NegInf b = True"
| "num_le a PosInf = True"
| "num_le PosInf b = False"
| "num_le a NegInf = False"
| "num_le (Fin a) (Fin b) = (a \<le> b)"

definition num_gt :: "jsnum \<Rightarrow> jsnum \<Rightarrow> bool" where
  "num_gt a b = num_lt b a"

fun isNaN :: "jsnum \<Rightarrow> bool" where
  "isNaN NaN = True"
| "isNaN n = False"

fun isFinite :: "jsnum \<Rightarrow> bool" where
  "isFinite (Fin r) = True"
| "isFinite n = False"

text \<open>\<^verbatim>\<open>Number.isInteger\<close>: finite, with no fractional part.\<close>

fun isInteger :: "jsnum \<Rightarrow> bool" where
  "isInteger (Fin r) = (r = of_int \<lfloor>r\<rfloor>)"
| "isInteger n = False"

fun has_fraction :: "jsnum \<Rightarrow> bool" where
  "has_fraction (Fin r) = (r \<noteq> of_int \<lfloor>r\<rfloor>)"
| "has_fraction n = False"

subsection \<open>What the JavaScript engine provides\<close>

text \<open>
  The validator calls built-ins of the engine whose results it only copies into
  messages or tests for success: printing and parsing of numbers, subtraction and
  rounding of doubles, \<^verbatim>\<open>JSON.stringify\<close>, \<^verbatim>\<open>new Date(s).getTime()\<close>, whether
  \<^verbatim>\<open>new URL(s)\<close> succeeds, and \<^verbatim>\<open>new RegExp(p).test(s)\<close> (\<open>None\<close> when the pattern
  does not compile). They are parameters of the model, so that every theorem holds
  for any engine.
\<close>

record platform =
  num_to_string :: "jsnum \<Rightarrow> string"
  string_to_num :: "string \<Rightarrow> jsnum"
  num_sub :: "jsnum \<Rightarrow> jsnum \<Rightarrow> jsnum"
  num_round :: "jsnum \<Rightarrow> jsnum"
  json_stringify :: "jsval \<Rightarrow> string"
  date_time :: "string \<Rightarrow> jsnum"
  url_parses :: "string \<Rightarrow> bool"
  regexp_test :: "string \<Rightarrow> string \<Rightarrow> bool option"

text \<open>\<^verbatim>\<open>xs.join(sep)\<close> on strings.\<close>

fun join :: "string \<Rightarrow> string list \<Rightarrow> string" where
  "join sep [] = []"
| "join sep [x] = x"
| "join sep (x # xs) = x @ sep @ join sep xs"

text \<open>
  \<^verbatim>\<open>`${v}`\<close>: the string of a value in a template literal. An array prints its
  elements separated by commas, \<^verbatim>\<open>null\<close> and \<^verbatim>\<open>undefined\<close> elements as the empty
  string.
\<close>

fun ToString :: "platform \<Rightarrow> jsval \<Rightarrow> string"
  and join_element :: "platform \<Rightarrow> jsval \<Rightarrow> string"
  and join_elements :: "platform \<Rightarrow> jsval list \<Rightarrow> string list" where
  "ToString P JUndefined = ''undefined''"
| "ToString P JNull = ''null''"
| "ToString P (JBool b) = (if b then ''true'' else ''false'')"
| "ToString P (JNum n) = num_to_string P n"
| "ToString P (JStr s) = s"
| "ToString P (JArr xs) = join '','' (join_elements P xs)"
| "ToString P (JObj kvs) = ''[object Object]''"
| "join_element P v = (if is_nullish v then [] else ToString P v)"
| "join_elements P [] = []"
| "join_elements P (v # vs) = join_element P v # join_elements P vs"

text \<open>The number of a value in a comparison or a subtraction.\<close>

fun ToNumber :: "platform \<Rightarrow> jsval \<Rightarrow> jsnum" where
  "ToNumber P JUndefined = NaN"
| "ToNumber P JNull = Fin 0"
| "ToNumber P (JBool b) = (if b then Fin 1 else Fin 0)"
| "ToNumber P (JNum n) = n"
| "ToNumber P (JStr s) = string_to_num P s"
| "ToNumber P v = string_to_num P (ToString P v)"

text \<open>The number of code units of a string, or of elements of an array.\<close>

definition len :: "'a list \<Rightarrow> jsnum" where
  "len xs = Fin (of_nat (length xs))"


section \<open>Schema model\<close>

text \<open>
  \<^verbatim>\<open>ManifestValidationRule\<close>, \<^verbatim>\<open>ManifestValidationGroup\<close> and
  \<^verbatim>\<open>ManifestSchemaType\<close> of \<^verbatim>\<open>types.ts\<close>, with the attributes the validator
  reads. An absent \<^verbatim>\<open>constraint\<close> is \<open>JUndefined\<close>. Fields, array members and
  reference targets share one type; the name is optional, as it is for members.
\<close>

datatype rule = Rule (flag: string) (constraint: jsval)

record validation_group =
  rules :: "rule list"
  group_message :: "string option"
  level :: "string option"

datatype schema_type = SchemaType
  (stype: string)
  (sname: "string option")
  (title: "string option")
  (sfields: "schema_type list option")
  (of_types: "schema_type list option")
  (to_types: "schema_type list option")
  (validation: "validation_group list option")
  (options: "(string \<times> jsval) list option")

text \<open>\<^verbatim>\<open>field.name\<close> as a value, and as a property key or inside a template literal.\<close>

definition name_val :: "schema_type \<Rightarrow> jsval" where
  "name_val t = (case sname t of None \<Rightarrow> JUndefined | Some n \<Rightarrow> JStr n)"

definition name_str :: "schema_type \<Rightarrow> string" where
  "name_str t = (case sname t of None \<Rightarrow> ''undefined'' | Some n \<Rightarrow> n)"

text \<open>
  \<^verbatim>\<open>getValidationRules\<close> of \<^verbatim>\<open>helpers.ts\<close> (the code follows the tests in
  \<^verbatim>\<open>src/validation.test.ts\<close>, from line 644):
  \<^verbatim>\<open>for (const group of field.validation ?? []) rules.push(...group.rules)\<close>.
  The loop appends the rules of each group to an array that starts empty, so it returns
  the rules of all groups, in order, and no rules when \<^verbatim>\<open>validation\<close> is absent.
\<close>

definition getValidationRules :: "schema_type \<Rightarrow> rule list" where
  "getValidationRules fld =
     (case validation fld of None \<Rightarrow> [] | Some groups \<Rightarrow> concat (map rules groups))"

section \<open>Issues and results\<close>

datatype severity = Error | Warning | Info

record field_context =
  fc_name :: "string option"
  fc_type :: string
  fc_title :: "string option"

text \<open>
  \<^verbatim>\<open>ValidationIssue\<close>. The source's \<^verbatim>\<open>value\<close> is \<open>val\<close> here. \<^verbatim>\<open>expected\<close>
  is declared a string; the \<^verbatim>\<open>regex\<close> rule stores a part of its constraint there
  unconverted, so the model keeps a value.
\<close>

record issue =
  path :: string
  message :: string
  severity :: severity
  rule :: "rule option"
  val :: "jsval option"
  expected :: "jsval option"
  field :: "field_context option"
  suggestions :: "string list option"

record validation_result =
  valid :: bool
  issues :: "issue list"
  errors :: "issue list"
  warnings :: "issue list"
  info :: "issue list"
  documentType :: "string option"
  summary :: string

text \<open>\<^verbatim>\<open>ValidateOptions\<close>. The callback \<^verbatim>\<open>resolveReference\<close> is never called by
  the validator and is left out.\<close>

record validate_options =
  includeWarnings :: "bool option"
  includeInfo :: "bool option"
  stopOnFirstError :: "bool option"

text \<open>The double quote that the messages put around values.\<close>

definition dq :: string where
  "dq = [CHR 0x22]"


section \<open>The checks of one kind\<close>

subsection \<open>string, text\<close>

text \<open>
  \<^verbatim>\<open>typeof item === 'object' ? item.value : item\<close>, for one entry of the
  \<^verbatim>\<open>list\<close> option and for all of them. The read throws on a \<^verbatim>\<open>null\<close> entry.
\<close>

definition list_value :: "jsval \<Rightarrow> js_error + jsval" where
  "list_value item = (if typeof item = ''object'' then get_prop item ''value'' else Inr item)"

fun list_values :: "jsval list \<Rightarrow> js_error + jsval list" where
  "list_values [] = Inr []"
| "list_values (item # items) =
     (case list_value item of
        Inl e \<Rightarrow> Inl e
      | Inr v \<Rightarrow> (case list_values items of Inl e \<Rightarrow> Inl e | Inr vs \<Rightarrow> Inr (v # vs)))"

fun elements :: "jsval \<Rightarrow> jsval list" where
  "elements (JArr xs) = xs"
| "elements v = []"

text \<open>\<^verbatim>\<open>validValues.includes(value)\<close> is membership here: \<open>value\<close> is a string when
  the test is reached.\<close>

definition validateString ::
  "platform \<Rightarrow> jsval \<Rightarrow> schema_type \<Rightarrow> string \<Rightarrow> rule list \<Rightarrow> field_context
    \<Rightarrow> js_error + issue list" where
  "validateString P value fld pth rls fieldContext =
     (if typeof value \<noteq> ''string'' then
        Inr [\<lparr>path = pth,
              message = ''Expected string, got '' @ typeof value,
              severity = Error, rule = None, val = Some value,
              expected = Some (JStr ''string''), field = Some fieldContext,
              suggestions = Some [''Convert the value to a string'']\<rparr>]
      else
        let lst = (case options fld of None \<Rightarrow> JUndefined | Some os \<Rightarrow> get (JObj os) ''list'')
        in if truthy lst \<and> isArray lst then
             (case list_values (elements lst) of
                Inl e \<Rightarrow> Inl e
              | Inr validValues \<Rightarrow>
                  if value \<notin> set validValues then
                    Inr [\<lparr>path = pth,
                          message = dq @ ToString P value @ dq @ '' is not a valid option'',
                          severity = Error, rule = None, val = Some value,
                          expected = Some (JStr (''one of: '' @ join '', '' (join_elements P validValues))),
                          field = Some fieldContext,
                          suggestions = Some (map (\<lambda>v. ''Use '' @ dq @ ToString P v @ dq) validValues)\<rparr>]
                  else Inr [])
           else Inr [])"

subsection \<open>number\<close>

definition validateNumber ::
  "platform \<Rightarrow> jsval \<Rightarrow> schema_type \<Rightarrow> string \<Rightarrow> rule list \<Rightarrow> field_context \<Rightarrow> issue list" where
  "validateNumber P value fld pth rls fieldContext =
     (case (case value of JNum n \<Rightarrow> if isNaN n then None else Some n | _ \<Rightarrow> None) of
        None \<Rightarrow>
          [\<lparr>path = pth,
            message = ''Expected number, got '' @ typeof value,
            severity = Error, rule = None, val = Some value,
            expected = Some (JStr ''number''), field = Some fieldContext,
            suggestions = Some [''Convert the value to a number'']\<rparr>]
      | Some n \<Rightarrow>
          (case find (\<lambda>r. flag r = ''integer'') rls of
             Some integerRule \<Rightarrow>
               if \<not> isInteger n then
                 [\<lparr>path = pth,
                   message = ''Expected integer, got decimal'',
                   severity = Error, rule = Some integerRule, val = Some value,
                   expected = Some (JStr ''integer''), field = Some fieldContext,
                   suggestions = Some [''Round to '' @ num_to_string P (num_round P n)]\<rparr>]
               else []
           | None \<Rightarrow> [])
          @
          (case find (\<lambda>r. flag r = ''positive'') rls of
             Some positiveRule \<Rightarrow>
               if num_le n (Fin 0) then
                 [\<lparr>path = pth,
                   message = ''Expected positive number'',
                   severity = Error, rule = Some positiveRule, val = Some value,
                   expected = Some (JStr ''positive number''), field = Some fieldContext,
                   suggestions = Some [''Use a positive value'']\<rparr>]
               else []
           | None \<Rightarrow> []))"

subsection \<open>boolean, date, datetime\<close>

definition validateBoolean :: "jsval \<Rightarrow> string \<Rightarrow> field_context \<Rightarrow> issue list" where
  "validateBoolean value pth fieldContext =
     (if typeof value \<noteq> ''boolean'' then
        [\<lparr>path = pth,
          message = ''Expected boolean, got '' @ typeof value,
          severity = Error, rule = None, val = Some value,
          expected = Some (JStr ''boolean''), field = Some fieldContext,
          suggestions = Some [''Use true or false'']\<rparr>]
      else [])"

definition date_expected :: "schema_type \<Rightarrow> jsval" where
  "date_expected fld =
     JStr (if stype fld = ''datetime'' then ''ISO 8601 datetime string''
           else ''YYYY-MM-DD date string'')"

definition date_suggestion :: "schema_type \<Rightarrow> string" where
  "date_suggestion fld =
     (if stype fld = ''datetime'' then ''Use format: 2024-01-15T10:30:00Z''
      else ''Use format: 2024-01-15'')"

definition validateDate ::
  "platform \<Rightarrow> jsval \<Rightarrow> schema_type \<Rightarrow> string \<Rightarrow> field_context \<Rightarrow> issue list" where
  "validateDate P value fld pth fieldContext =
     (case value of
        JStr s \<Rightarrow>
          if isNaN (date_time P s) then
            [\<lparr>path = pth,
              message = ''Invalid date format: '' @ dq @ s @ dq,
              severity = Error, rule = None, val = Some value,
              expected = Some (date_expected fld), field = Some fieldContext,
              suggestions = Some [date_suggestion fld]\<rparr>]
          else []
      | _ \<Rightarrow>
          [\<lparr>path = pth,
            message = ''Expected date string, got '' @ typeof value,
            severity = Error, rule = None, val = Some value,
            expected = Some (date_expected fld), field = Some fieldContext,
            suggestions = Some [date_suggestion fld]\<rparr>])"

subsection \<open>reference\<close>

definition validateReference ::
  "platform \<Rightarrow> jsval \<Rightarrow> schema_type \<Rightarrow> string \<Rightarrow> field_context \<Rightarrow> issue list" where
  "validateReference P value fld pth fieldContext =
     (if typeof value \<noteq> ''object'' \<or> value = JNull then
        [\<lparr>path = pth,
          message = ''Expected reference object, got '' @ typeof value,
          severity = Error, rule = None, val = Some value,
          expected = Some (JStr ''reference object with _ref''), field = Some fieldContext,
          suggestions = Some [''Use format: { '' @ dq @ ''_type'' @ dq @ '': '' @ dq @ ''reference''
                               @ dq @ '', '' @ dq @ ''_ref'' @ dq @ '': '' @ dq @ ''document-id''
                               @ dq @ '' }'']\<rparr>]
      else
        let refValue = get value ''_ref'';
            refType = get value ''_type'';
            targets = (case to_types fld of None \<Rightarrow> [] | Some ts \<Rightarrow> ts);
            allowedTypes = filter (\<lambda>t. t \<noteq> []) (map stype targets)
        in
          (if \<not> truthy refValue \<or> typeof refValue \<noteq> ''string'' then
             [\<lparr>path = pth @ ''._ref'',
               message = ''Reference is missing _ref property'',
               severity = Error, rule = None, val = Some refValue,
               expected = Some (JStr ''string (document ID)''), field = Some fieldContext,
               suggestions = Some [''Add '' @ dq @ ''_ref'' @ dq @ '': '' @ dq @ ''document-id''
                                    @ dq @ '' to the reference'']\<rparr>]
           else [])
          @
          (if truthy refType \<and> refType \<noteq> JStr ''reference''
              \<and> allowedTypes \<noteq> [] \<and> refType \<notin> JStr ` set allowedTypes then
             [\<lparr>path = pth @ ''._type'',
               message = ''Reference to '' @ dq @ ToString P refType @ dq @ '' is not allowed'',
               severity = Error, rule = None, val = Some refType,
               expected = Some (JStr (''reference to: '' @ join '', '' allowedTypes)),
               field = Some fieldContext,
               suggestions = Some [''Reference a document of type: '' @ join '', '' allowedTypes]\<rparr>]
           else []))"


subsection \<open>slug\<close>

text \<open>The character class \<^verbatim>\<open>[a-z0-9]\<close>.\<close>

definition alnum :: "char \<Rightarrow> bool" where
  "alnum c = (c \<in> set ''abcdefghijklmnopqrstuvwxyz0123456789'')"

text \<open>
  \<^verbatim>\<open>/^[a-z0-9]+(?:-[a-z0-9]+)*$/.test(s)\<close>, read from left to right; the flag
  says that the character before was of the class.
\<close>

fun slug_match :: "bool \<Rightarrow> string \<Rightarrow> bool" where
  "slug_match prev [] = prev"
| "slug_match prev (c # cs) =
     (if alnum c then slug_match True cs
      else if c = CHR ''-'' \<and> prev then slug_match False cs
      else False)"

definition slug_format :: "string \<Rightarrow> bool" where
  "slug_format s = slug_match False s"

text \<open>\<^verbatim>\<open>toLowerCase\<close> on Latin-1: the letters A-Z and the accented capitals
  U+00C0 to U+00DE, without the multiplication sign, move up by 32.\<close>

definition lower_char :: "char \<Rightarrow> char" where
  "lower_char c =
     (let n = (of_char c :: nat)
      in if (65 \<le> n \<and> n \<le> 90) \<or> (192 \<le> n \<and> n \<le> 222 \<and> n \<noteq> 215)
         then char_of (n + 32) else c)"

definition toLowerCase :: "string \<Rightarrow> string" where
  "toLowerCase s = map lower_char s"

text \<open>\<^verbatim>\<open>.replace(/[^a-z0-9]+/g, '-')\<close>: each maximal run of characters outside the
  class becomes one hyphen.\<close>

function replace_runs :: "string \<Rightarrow> string" where
  "replace_runs [] = []"
| "replace_runs (c # cs) =
     (if alnum c then c # replace_runs cs
      else CHR ''-'' # replace_runs (dropWhile (\<lambda>d. \<not> alnum d) cs))"
  by pat_completeness auto
termination
  by (relation "measure length") (auto simp: length_dropWhile_le less_Suc_eq_le)

text \<open>\<^verbatim>\<open>.replace(/^-|-$/g, '')\<close>: a hyphen at the start is removed, then a hyphen
  at the end of what follows it.\<close>

definition strip_ends :: "string \<Rightarrow> string" where
  "strip_ends s =
     (let s1 = (case s of [] \<Rightarrow> [] | c # cs \<Rightarrow> if c = CHR ''-'' then cs else s)
      in if s1 \<noteq> [] \<and> last s1 = CHR ''-'' then butlast s1 else s1)"

definition slug_suggestion :: "string \<Rightarrow> string" where
  "slug_suggestion s = strip_ends (replace_runs (toLowerCase s))"

definition validateSlug ::
  "jsval \<Rightarrow> schema_type \<Rightarrow> string \<Rightarrow> rule list \<Rightarrow> field_context \<Rightarrow> issue list" where
  "validateSlug value fld pth rls fieldContext =
     (if typeof value \<noteq> ''object'' \<or> value = JNull then
        [\<lparr>path = pth,
          message = ''Expected slug object, got '' @ typeof value,
          severity = Error, rule = None, val = Some value,
          expected = Some (JStr ''slug object with current property''),
          field = Some fieldContext,
          suggestions = Some [''Use format: { '' @ dq @ ''current'' @ dq @ '': '' @ dq
                               @ ''my-slug'' @ dq @ '' }'']\<rparr>]
      else
        (case get value ''current'' of
           JStr slugCurrent \<Rightarrow>
             if slugCurrent = [] then
               [\<lparr>path = pth @ ''.current'',
                 message = ''Slug is missing current value'',
                 severity = Error, rule = None, val = Some (JStr slugCurrent),
                 expected = Some (JStr ''string''), field = Some fieldContext,
                 suggestions = Some [''Add '' @ dq @ ''current'' @ dq @ '': '' @ dq
                                      @ ''url-friendly-slug'' @ dq]\<rparr>]
             else if \<not> slug_format slugCurrent then
               [\<lparr>path = pth @ ''.current'',
                 message = ''Slug contains invalid characters'',
                 severity = Warning, rule = None, val = Some (JStr slugCurrent),
                 expected = Some (JStr ''lowercase letters, numbers, and hyphens only''),
                 field = Some fieldContext,
                 suggestions = Some [''Use: '' @ dq @ slug_suggestion slugCurrent @ dq]\<rparr>]
             else []
         | slugCurrent \<Rightarrow>
             [\<lparr>path = pth @ ''.current'',
               message = ''Slug is missing current value'',
               severity = Error, rule = None, val = Some slugCurrent,
               expected = Some (JStr ''string''), field = Some fieldContext,
               suggestions = Some [''Add '' @ dq @ ''current'' @ dq @ '': '' @ dq
                                    @ ''url-friendly-slug'' @ dq]\<rparr>]))"

subsection \<open>url\<close>

definition validateUrl ::
  "platform \<Rightarrow> jsval \<Rightarrow> string \<Rightarrow> rule list \<Rightarrow> field_context \<Rightarrow> issue list" where
  "validateUrl P value pth rls fieldContext =
     (case value of
        JStr s \<Rightarrow>
          if \<not> url_parses P s then
            [\<lparr>path = pth,
              message = ''Invalid URL: '' @ dq @ s @ dq,
              severity = Error, rule = None, val = Some value,
              expected = Some (JStr ''valid URL''), field = Some fieldContext,
              suggestions = Some [''Use format: https://example.com/path'']\<rparr>]
          else []
      | _ \<Rightarrow>
          [\<lparr>path = pth,
            message = ''Expected URL string, got '' @ typeof value,
            severity = Error, rule = None, val = Some value,
            expected = Some (JStr ''URL string''), field = Some fieldContext,
            suggestions = None\<rparr>])"

subsection \<open>block\<close>

text \<open>
  The loop over \<^verbatim>\<open>children\<close>, from index \<open>i\<close>. Each entry is cast to a record and
  read at \<^verbatim>\<open>_type\<close> and \<^verbatim>\<open>_key\<close> with no test before: the read throws a
  \<^verbatim>\<open>TypeError\<close> on \<^verbatim>\<open>null\<close> and \<^verbatim>\<open>undefined\<close>.
\<close>

fun block_children ::
  "jsval list \<Rightarrow> nat \<Rightarrow> string \<Rightarrow> field_context \<Rightarrow> js_error + issue list" where
  "block_children [] i pth fieldContext = Inr []"
| "block_children (child # rest) i pth fieldContext =
     (let childPath = pth @ ''.children['' @ show_nat i @ '']''
      in case get_prop child ''_type'' of
           Inl e \<Rightarrow> Inl e
         | Inr childType \<Rightarrow>
            (case get_prop child ''_key'' of
               Inl e \<Rightarrow> Inl e
             | Inr childKey \<Rightarrow>
                (case block_children rest (i + 1) pth fieldContext of
                   Inl e \<Rightarrow> Inl e
                 | Inr others \<Rightarrow>
                     Inr ((if \<not> truthy childType then
                             [\<lparr>path = childPath @ ''._type'',
                               message = ''Block child is missing _type'',
                               severity = Error, rule = None, val = None,
                               expected = Some (JStr ''span or inline type''),
                               field = Some fieldContext, suggestions = None\<rparr>]
                           else [])
                          @ (if \<not> truthy childKey then
                               [\<lparr>path = childPath @ ''._key'',
                                 message = ''Block child is missing _key'',
                                 severity = Warning, rule = None, val = None,
                                 expected = Some (JStr ''unique key''),
                                 field = Some fieldContext, suggestions = None\<rparr>]
                             else [])
                          @ others))))"

definition validateBlock ::
  "jsval \<Rightarrow> schema_type \<Rightarrow> string \<Rightarrow> field_context \<Rightarrow> js_error + issue list" where
  "validateBlock value fld pth fieldContext =
     (if typeof value \<noteq> ''object'' \<or> value = JNull then
        Inr [\<lparr>path = pth,
              message = ''Expected block object, got '' @ typeof value,
              severity = Error, rule = None, val = Some value,
              expected = Some (JStr ''portable text block''), field = Some fieldContext,
              suggestions = None\<rparr>]
      else
        let blockType = get value ''_type'';
            blockKey = get value ''_key'';
            blockChildren = get value ''children'';
            head = (if \<not> truthy blockType then
                      [\<lparr>path = pth @ ''._type'',
                        message = ''Block is missing _type'',
                        severity = Error, rule = None, val = None,
                        expected = Some (JStr ''block type''),
                        field = Some fieldContext, suggestions = None\<rparr>]
                    else [])
                   @ (if \<not> truthy blockKey then
                        [\<lparr>path = pth @ ''._key'',
                          message = ''Block is missing _key'',
                          severity = Warning, rule = None, val = None,
                          expected = Some (JStr ''unique key''),
                          field = Some fieldContext, suggestions = None\<rparr>]
                      else [])
        in if truthy blockChildren \<and> isArray blockChildren then
             (case block_children (elements blockChildren) 0 pth fieldContext of
                Inl e \<Rightarrow> Inl e
              | Inr others \<Rightarrow> Inr (head @ others))
           else Inr head)"


section \<open>Generic rules\<close>

text \<open>The class \<^verbatim>\<open>[^\s@]\<close>: not white space (of Latin-1) and not the at sign.\<close>

definition email_char :: "char \<Rightarrow> bool" where
  "email_char c =
     (c \<noteq> CHR ''@'' \<and> (of_char c :: nat) \<notin> {9, 10, 11, 12, 13, 32, 160})"

text \<open>
  \<^verbatim>\<open>/^[^\s@]+@[^\s@]+\.[^\s@]+$/.test(s)\<close>: a non-empty local part, one at sign,
  and a domain with a dot that is neither its first nor its last character.
\<close>

definition email_format :: "string \<Rightarrow> bool" where
  "email_format s =
     (let localPart = takeWhile (\<lambda>c. c \<noteq> CHR ''@'') s;
          afterLocal = dropWhile (\<lambda>c. c \<noteq> CHR ''@'') s
      in localPart \<noteq> [] \<and> list_all email_char localPart \<and> afterLocal \<noteq> []
         \<and> list_all email_char (tl afterLocal)
         \<and> CHR ''.'' \<in> set (butlast (tl (tl afterLocal))))"

text \<open>The plural ending of the messages.\<close>

definition plural :: "bool \<Rightarrow> string" where
  "plural one = (if one then [] else ''s'')"

text \<open>One turn of the loop of \<^verbatim>\<open>applyValidationRules\<close>: the \<^verbatim>\<open>switch\<close> on the
  flag of one rule. The \<^verbatim>\<open>length\<close> and \<^verbatim>\<open>regex\<close> cases read a property of the
  constraint, which throws when a string is checked and the rule has no constraint.\<close>

definition apply_rule ::
  "platform \<Rightarrow> jsval \<Rightarrow> rule \<Rightarrow> string \<Rightarrow> field_context \<Rightarrow> js_error + issue list" where
  "apply_rule P value r pth fieldContext =
     (if flag r = ''min'' then
        let min = constraint r in
        (case value of
           JStr s \<Rightarrow>
             if num_lt (len s) (ToNumber P min) then
               Inr [\<lparr>path = pth,
                     message = ''Must be at least '' @ ToString P min @ '' characters'',
                     severity = Error, rule = Some r, val = Some value,
                     expected = Some (JStr (''string with length >= '' @ ToString P min)),
                     field = Some fieldContext,
                     suggestions = Some [''Add ''
                       @ num_to_string P (num_sub P (ToNumber P min) (len s))
                       @ '' more character''
                       @ plural (num_sub P (ToNumber P min) (len s) = Fin 1)]\<rparr>]
             else Inr []
         | JNum n \<Rightarrow>
             if num_lt n (ToNumber P min) then
               Inr [\<lparr>path = pth,
                     message = ''Must be at least '' @ ToString P min,
                     severity = Error, rule = Some r, val = Some value,
                     expected = Some (JStr (''number >= '' @ ToString P min)),
                     field = Some fieldContext, suggestions = None\<rparr>]
             else Inr []
         | JArr xs \<Rightarrow>
             if num_lt (len xs) (ToNumber P min) then
               Inr [\<lparr>path = pth,
                     message = ''Must have at least '' @ ToString P min @ '' item''
                               @ plural (min = JNum (Fin 1)),
                     severity = Error, rule = Some r, val = Some (JNum (len xs)),
                     expected = Some (JStr (''array with length >= '' @ ToString P min)),
                     field = Some fieldContext, suggestions = None\<rparr>]
             else Inr []
         | _ \<Rightarrow> Inr [])
      else if flag r = ''max'' then
        let max = constraint r in
        (case value of
           JStr s \<Rightarrow>
             if num_gt (len s) (ToNumber P max) then
               Inr [\<lparr>path = pth,
                     message = ''Must be at most '' @ ToString P max @ '' characters (currently ''
                               @ show_nat (length s) @ '')'',
                     severity = Error, rule = Some r, val = Some value,
                     expected = Some (JStr (''string with length <= '' @ ToString P max)),
                     field = Some fieldContext,
                     suggestions = Some [''Remove ''
                       @ num_to_string P (num_sub P (len s) (ToNumber P max))
                       @ '' character''
                       @ plural (num_sub P (len s) (ToNumber P max) = Fin 1)]\<rparr>]
             else Inr []
         | JNum n \<Rightarrow>
             if num_gt n (ToNumber P max) then
               Inr [\<lparr>path = pth,
                     message = ''Must be at most '' @ ToString P max,
                     severity = Error, rule = Some r, val = Some value,
                     expected = Some (JStr (''number <= '' @ ToString P max)),
                     field = Some fieldContext, suggestions = None\<rparr>]
             else Inr []
         | JArr xs \<Rightarrow>
             if num_gt (len xs) (ToNumber P max) then
               Inr [\<lparr>path = pth,
                     message = ''Must have at most '' @ ToString P max @ '' item''
                               @ plural (max = JNum (Fin 1))
                               @ '' (currently '' @ show_nat (length xs) @ '')'',
                     severity = Error, rule = Some r, val = Some (JNum (len xs)),
                     expected = Some (JStr (''array with length <= '' @ ToString P max)),
                     field = Some fieldContext, suggestions = None\<rparr>]
             else Inr []
         | _ \<Rightarrow> Inr [])
      else if flag r = ''length'' then
        (case value of
           JStr s \<Rightarrow>
             (case get_prop (constraint r) ''min'' of
                Inl e \<Rightarrow> Inl e
              | Inr cmin \<Rightarrow>
                 (case get_prop (constraint r) ''max'' of
                    Inl e \<Rightarrow> Inl e
                  | Inr cmax \<Rightarrow>
                      Inr ((if cmin \<noteq> JUndefined \<and> num_lt (len s) (ToNumber P cmin) then
                              [\<lparr>path = pth,
                                message = ''Must be at least '' @ ToString P cmin @ '' characters'',
                                severity = Error, rule = Some r, val = Some value,
                                expected = None, field = Some fieldContext,
                                suggestions = None\<rparr>]
                            else [])
                           @ (if cmax \<noteq> JUndefined \<and> num_gt (len s) (ToNumber P cmax) then
                                [\<lparr>path = pth,
                                  message = ''Must be at most '' @ ToString P cmax @ '' characters'',
                                  severity = Error, rule = Some r, val = Some value,
                                  expected = None, field = Some fieldContext,
                                  suggestions = None\<rparr>]
                              else []))))
         | _ \<Rightarrow> Inr [])
      else if flag r = ''regex'' then
        (case value of
           JStr s \<Rightarrow>
             (case get_prop (constraint r) ''pattern'' of
                Inl e \<Rightarrow> Inl e
              | Inr pattern \<Rightarrow>
                  if truthy pattern then
                    (case regexp_test P (ToString P pattern) s of
                       Some False \<Rightarrow>
                         let cname = get (constraint r) ''name'' in
                         Inr [\<lparr>path = pth,
                               message = (if truthy cname
                                          then ''Does not match '' @ ToString P cname @ '' format''
                                          else ''Does not match required pattern''),
                               severity = Error, rule = Some r, val = Some value,
                               expected = Some (if truthy cname then cname else pattern),
                               field = Some fieldContext, suggestions = None\<rparr>]
                     | _ \<Rightarrow> Inr [])
                  else Inr [])
         | _ \<Rightarrow> Inr [])
      else if flag r = ''email'' then
        (case value of
           JStr s \<Rightarrow>
             if \<not> email_format s then
               Inr [\<lparr>path = pth,
                     message = ''Invalid email address'',
                     severity = Error, rule = Some r, val = Some value,
                     expected = Some (JStr ''valid email address''),
                     field = Some fieldContext,
                     suggestions = Some [''Use format: user@example.com'']\<rparr>]
             else Inr []
         | _ \<Rightarrow> Inr [])
      else if flag r = ''uri'' then
        (case value of
           JStr s \<Rightarrow>
             if \<not> url_parses P s then
               Inr [\<lparr>path = pth,
                     message = ''Invalid URL'',
                     severity = Error, rule = Some r, val = Some value,
                     expected = Some (JStr ''valid URL''),
                     field = Some fieldContext, suggestions = None\<rparr>]
             else Inr []
         | _ \<Rightarrow> Inr [])
      else if flag r = ''unique'' then Inr []
      else if flag r = ''custom'' then
        Inr [\<lparr>path = pth,
              message = ''Has custom validation that cannot be evaluated'',
              severity = Info, rule = Some r, val = None,
              expected = None, field = Some fieldContext, suggestions = None\<rparr>]
      else Inr [])"

fun applyValidationRules ::
  "platform \<Rightarrow> jsval \<Rightarrow> rule list \<Rightarrow> string \<Rightarrow> schema_type \<Rightarrow> field_context
    \<Rightarrow> js_error + issue list" where
  "applyValidationRules P value [] pth fld fieldContext = Inr []"
| "applyValidationRules P value (r # rs) pth fld fieldContext =
     (case apply_rule P value r pth fieldContext of
        Inl e \<Rightarrow> Inl e
      | Inr found \<Rightarrow>
         (case applyValidationRules P value rs pth fld fieldContext of
            Inl e \<Rightarrow> Inl e
          | Inr others \<Rightarrow> Inr (found @ others)))"


section \<open>The recursive validator\<close>

type_synonym type_map = "jsval \<Rightarrow> schema_type option"

text \<open>
  \<^verbatim>\<open>new Map(allTypes.map((t) => [t.name, t]))\<close>: of two types with one name the
  later one stays. \<^verbatim>\<open>typeMap.get(k)\<close> is application.
\<close>

definition make_type_map :: "schema_type list \<Rightarrow> type_map" where
  "make_type_map allTypes = map_of (rev (map (\<lambda>t. (name_val t, t)) allTypes))"

definition field_context_of :: "schema_type \<Rightarrow> field_context" where
  "field_context_of fld = \<lparr>fc_name = sname fld, fc_type = stype fld, fc_title = title fld\<rparr>"

text \<open>\<^verbatim>\<open>rules.some((r) => r.flag === 'presence' && r.constraint === 'required')\<close>\<close>

definition is_required :: "rule list \<Rightarrow> bool" where
  "is_required rls = list_ex (\<lambda>r. flag r = ''presence'' \<and> constraint r = JStr ''required'') rls"

text \<open>\<^verbatim>\<open>field.title || field.name\<close> inside a template literal.\<close>

definition title_or_name :: "schema_type \<Rightarrow> string" where
  "title_or_name fld =
     (case title fld of
        Some t \<Rightarrow> if t \<noteq> [] then t else name_str fld
      | None \<Rightarrow> name_str fld)"

definition required_issue :: "jsval \<Rightarrow> schema_type \<Rightarrow> string \<Rightarrow> issue" where
  "required_issue value fld pth =
     \<lparr>path = pth,
      message = title_or_name fld @ '' is required'',
      severity = Error,
      rule = Some (Rule ''presence'' (JStr ''required'')),
      val = Some value,
      expected = Some (JStr (stype fld)),
      field = Some (field_context_of fld),
      suggestions = Some [''Provide a value for '' @ name_str fld]\<rparr>"

text \<open>\<^verbatim>\<open>memberTypes.map((m) => m['type'] || m.name).filter(Boolean)\<close>\<close>

definition allowed_member_types :: "schema_type list \<Rightarrow> string list" where
  "allowed_member_types memberTypes =
     filter (\<lambda>t. t \<noteq> [])
       (map (\<lambda>m. if stype m \<noteq> [] then stype m
                  else (case sname m of Some n \<Rightarrow> n | None \<Rightarrow> [])) memberTypes)"

text \<open>
  Termination: every call of \<open>validateField\<close> from a loop over fields is on a
  property of the value at hand, which is smaller than the value unless it is
  \<^verbatim>\<open>undefined\<close>, where \<open>validateField\<close> returns at once. The recursion depth is
  bounded by the nesting of the document, whatever the type catalog holds.
\<close>

lemma size_map_of: "map_of kvs k = Some v \<Longrightarrow> size v < size (JObj kvs)"
  by (induction kvs) (auto split: if_splits)

lemma size_member: "v \<in> set xs \<Longrightarrow> size v < size (JArr xs)"
  by (induction xs) auto

lemma size_get: "\<not> is_nullish (get c k) \<Longrightarrow> size (get c k) < size c"
proof (cases c)
  case (JArr xs)
  then show ?thesis
    by (auto split: option.splits dest!: map_of_SomeD set_zip_rightD size_member)
next
  case (JObj kvs)
  then show ?thesis
    using size_map_of [of kvs k] by (auto split: option.splits)
qed simp_all

text \<open>
  \<^verbatim>\<open>validateField\<close> with the three checks that call it back. The loops are
  functions of their own: \<open>validate_fields\<close> is
  \<^verbatim>\<open>for (const f of fs) issues.push(...validateField(c[f.name], f, `${prefix}.${f.name}`, ...))\<close>,
  which the source writes three times; \<open>array_items\<close> is the loop of
  \<^verbatim>\<open>validateArray\<close> from index \<open>i\<close> and \<open>array_item\<close> one turn of it. An
  exception leaves every loop at once.
\<close>

function validateField ::
    "platform \<Rightarrow> jsval \<Rightarrow> schema_type \<Rightarrow> string \<Rightarrow> type_map \<Rightarrow> validate_options
      \<Rightarrow> js_error + issue list"
  and validateArray ::
    "platform \<Rightarrow> jsval \<Rightarrow> schema_type \<Rightarrow> string \<Rightarrow> type_map \<Rightarrow> validate_options
      \<Rightarrow> field_context \<Rightarrow> js_error + issue list"
  and array_items ::
    "platform \<Rightarrow> jsval list \<Rightarrow> nat \<Rightarrow> schema_type list \<Rightarrow> string \<Rightarrow> type_map
      \<Rightarrow> validate_options \<Rightarrow> field_context \<Rightarrow> js_error + issue list"
  and array_item ::
    "platform \<Rightarrow> jsval \<Rightarrow> string \<Rightarrow> schema_type list \<Rightarrow> type_map
      \<Rightarrow> validate_options \<Rightarrow> field_context \<Rightarrow> js_error + issue list"
  and validateObject ::
    "platform \<Rightarrow> jsval \<Rightarrow> schema_type \<Rightarrow> string \<Rightarrow> type_map \<Rightarrow> validate_options
      \<Rightarrow> field_context \<Rightarrow> js_error + issue list"
  and validateAsset ::
    "platform \<Rightarrow> jsval \<Rightarrow> schema_type \<Rightarrow> string \<Rightarrow> type_map \<Rightarrow> validate_options
      \<Rightarrow> field_context \<Rightarrow> js_error + issue list"
  and validate_fields ::
    "platform \<Rightarrow> jsval \<Rightarrow> schema_type list \<Rightarrow> string \<Rightarrow> type_map \<Rightarrow> validate_options
      \<Rightarrow> js_error + issue list"
where
  "validateField P value fld pth typeMap opts =
     (let fieldContext = field_context_of fld;
          rls = getValidationRules fld
      in if is_required rls \<and> is_nullish value then Inr [required_issue value fld pth]
         else if is_nullish value then Inr []
         else
           (case
              (if stype fld = ''string'' \<or> stype fld = ''text'' then
                 validateString P value fld pth rls fieldContext
               else if stype fld = ''number'' then
                 Inr (validateNumber P value fld pth rls fieldContext)
               else if stype fld = ''boolean'' then
                 Inr (validateBoolean value pth fieldContext)
               else if stype fld = ''date'' \<or> stype fld = ''datetime'' then
                 Inr (validateDate P value fld pth fieldContext)
               else if stype fld = ''array'' then
                 validateArray P value fld pth typeMap opts fieldContext
               else if stype fld = ''object'' then
                 validateObject P value fld pth typeMap opts fieldContext
               else if stype fld = ''reference'' then
                 Inr (validateReference P value fld pth fieldContext)
               else if stype fld = ''image'' \<or> stype fld = ''file'' then
                 validateAsset P value fld pth typeMap opts fieldContext
               else if stype fld = ''slug'' then
                 Inr (validateSlug value fld pth rls fieldContext)
               else if stype fld = ''url'' then
                 Inr (validateUrl P value pth rls fieldContext)
               else if stype fld = ''block'' then
                 validateBlock value fld pth fieldContext
               else
                 (case typeMap (JStr (stype fld)) of
                    Some customType \<Rightarrow>
                      if stype customType = ''object'' \<and> sfields customType \<noteq> None then
                        validateObject P value customType pth typeMap opts fieldContext
                      else Inr []
                  | None \<Rightarrow> Inr []))
            of
              Inl e \<Rightarrow> Inl e
            | Inr structural \<Rightarrow>
               (case applyValidationRules P value rls pth fld fieldContext of
                  Inl e \<Rightarrow> Inl e
                | Inr ruleIssues \<Rightarrow> Inr (structural @ ruleIssues))))"
| "validateArray P value fld pth typeMap opts fieldContext =
     (case value of
        JArr xs \<Rightarrow>
          array_items P xs 0 (case of_types fld of None \<Rightarrow> [] | Some ms \<Rightarrow> ms)
            pth typeMap opts fieldContext
      | _ \<Rightarrow>
          Inr [\<lparr>path = pth,
                message = ''Expected array, got '' @ typeof value,
                severity = Error, rule = None, val = Some value,
                expected = Some (JStr ''array''), field = Some fieldContext,
                suggestions = Some [''Wrap the value in an array: [''
                  @ (if value = JUndefined then ''undefined'' else json_stringify P value)
                  @ '']'']\<rparr>])"
| "array_items P items i memberTypes pth typeMap opts fieldContext =
     (case items of
        [] \<Rightarrow> Inr []
      | item # rest \<Rightarrow>
         (case array_item P item (pth @ ''['' @ show_nat i @ '']'') memberTypes typeMap opts
                 fieldContext of
            Inl e \<Rightarrow> Inl e
          | Inr itemIssues \<Rightarrow>
             (case array_items P rest (i + 1) memberTypes pth typeMap opts fieldContext of
                Inl e \<Rightarrow> Inl e
              | Inr others \<Rightarrow> Inr (itemIssues @ others))))"
| "array_item P item itemPath memberTypes typeMap opts fieldContext =
     (let keyIssues =
            (if is_object item \<and> \<not> has_key ''_key'' item then
               [\<lparr>path = itemPath,
                 message = ''Array item is missing _key property'',
                 severity = Warning, rule = None, val = Some item,
                 expected = Some (JStr ''object with _key''),
                 field = Some fieldContext,
                 suggestions = Some [''Add a unique '' @ dq @ ''_key'' @ dq
                                      @ '' property to this item'']\<rparr>]
             else [])
      in if is_object item \<and> has_key ''_type'' item then
           (let itemType = get item ''_type'' in
            case find (\<lambda>m. JStr (stype m) = itemType \<or> name_val m = itemType)
                   memberTypes of
              None \<Rightarrow>
                Inr (keyIssues @
                  [\<lparr>path = itemPath @ ''._type'',
                    message = ''Type '' @ dq @ ToString P itemType @ dq
                              @ '' is not allowed in this array'',
                    severity = Error, rule = None, val = Some itemType,
                    expected = Some (JStr (''one of: ''
                                 @ join '', '' (allowed_member_types memberTypes))),
                    field = Some fieldContext,
                    suggestions = Some (map (\<lambda>t. ''Change _type to '' @ dq @ t @ dq)
                                          (allowed_member_types memberTypes))\<rparr>])
            | Some memberType \<Rightarrow>
                (case sfields (case typeMap itemType of
                                 Some t \<Rightarrow> t | None \<Rightarrow> memberType) of
                   None \<Rightarrow> Inr keyIssues
                 | Some memberFields \<Rightarrow>
                    (case validate_fields P item memberFields itemPath typeMap opts of
                       Inl e \<Rightarrow> Inl e
                     | Inr nested \<Rightarrow> Inr (keyIssues @ nested))))
         else if memberTypes \<noteq> [] then
           (let expectedType = stype (hd memberTypes)
            in if expectedType \<noteq> [] \<and> typeof item \<noteq> expectedType then
                 Inr (keyIssues @
                   [\<lparr>path = itemPath,
                     message = ''Expected '' @ expectedType @ '', got '' @ typeof item,
                     severity = Error, rule = None, val = Some item,
                     expected = Some (JStr expectedType),
                     field = Some fieldContext, suggestions = None\<rparr>])
               else Inr keyIssues)
         else Inr keyIssues)"
| "validateObject P value fld pth typeMap opts fieldContext =
     (if typeof value \<noteq> ''object'' \<or> value = JNull \<or> isArray value then
        Inr [\<lparr>path = pth,
              message = ''Expected object, got ''
                        @ (if isArray value then ''array'' else typeof value),
              severity = Error, rule = None, val = Some value,
              expected = Some (JStr ''object''), field = Some fieldContext,
              suggestions = None\<rparr>]
      else
        (case sfields fld of
           None \<Rightarrow> Inr []
         | Some fs \<Rightarrow> validate_fields P value fs pth typeMap opts))"
| "validateAsset P value fld pth typeMap opts fieldContext =
     (if typeof value \<noteq> ''object'' \<or> value = JNull then
        Inr [\<lparr>path = pth,
              message = ''Expected '' @ stype fld @ '' object, got '' @ typeof value,
              severity = Error, rule = None, val = Some value,
              expected = Some (JStr (stype fld @ '' object with asset reference'')),
              field = Some fieldContext,
              suggestions = Some [''Use format: { '' @ dq @ ''asset'' @ dq @ '': { '' @ dq
                                   @ ''_ref'' @ dq @ '': '' @ dq @ ''image-...'' @ dq
                                   @ '' } }'']\<rparr>]
      else
        (let assetValue = get value ''asset'';
             assetIssues =
               (if \<not> truthy assetValue then
                  [\<lparr>path = pth @ ''.asset'',
                    message = (if stype fld = ''image'' then ''Image'' else ''File'')
                              @ '' is missing asset reference'',
                    severity = Error, rule = None, val = None,
                    expected = Some (JStr ''asset reference object''),
                    field = Some fieldContext,
                    suggestions = Some [''Add '' @ dq @ ''asset'' @ dq @ '': { '' @ dq @ ''_ref''
                                         @ dq @ '': '' @ dq @ stype fld @ ''-...'' @ dq
                                         @ '' }'']\<rparr>]
                else if typeof assetValue = ''object'' \<and> assetValue \<noteq> JNull then
                  (if \<not> truthy (get assetValue ''_ref'')
                      \<or> typeof (get assetValue ''_ref'') \<noteq> ''string'' then
                     [\<lparr>path = pth @ ''.asset._ref'',
                       message = ''Asset is missing _ref property'',
                       severity = Error, rule = None, val = None,
                       expected = Some (JStr ''asset ID string''),
                       field = Some fieldContext, suggestions = None\<rparr>]
                   else [])
                else [])
         in case sfields fld of
              None \<Rightarrow> Inr assetIssues
            | Some fs \<Rightarrow>
               (case validate_fields P value fs pth typeMap opts of
                  Inl e \<Rightarrow> Inl e
                | Inr nested \<Rightarrow> Inr (assetIssues @ nested))))"
| "validate_fields P container fs prefix typeMap opts =
     (case fs of
        [] \<Rightarrow> Inr []
      | f # rest \<Rightarrow>
         (case validateField P (get container (name_str f)) f
                 (prefix @ ''.'' @ name_str f) typeMap opts of
            Inl e \<Rightarrow> Inl e
          | Inr found \<Rightarrow>
             (case validate_fields P container rest prefix typeMap opts of
                Inl e \<Rightarrow> Inl e
              | Inr others \<Rightarrow> Inr (found @ others))))"
  by pat_completeness auto

termination
  apply (relation "measures [
     (\<lambda>x. case x of
        Inl (Inl (P, v, r)) \<Rightarrow> if is_nullish v then 0 else 4 * size v + 4
      | Inl (Inr (Inl (P, v, r))) \<Rightarrow> 4 * size v + 3
      | Inl (Inr (Inr (P, items, r))) \<Rightarrow> 4 * size_list size items + 3
      | Inr (Inl (Inl (P, item, r))) \<Rightarrow> 4 * size item + 3
      | Inr (Inl (Inr (P, v, r))) \<Rightarrow> 4 * size v + 3
      | Inr (Inr (Inl (P, v, r))) \<Rightarrow> 4 * size v + 3
      | Inr (Inr (Inr (P, c, fs, r))) \<Rightarrow> 4 * size c + 2),
     (\<lambda>x. case x of
        Inr (Inr (Inr (P, c, fs, r))) \<Rightarrow> length fs
      | _ \<Rightarrow> 0)]")
  apply simp_all
  subgoal for container fs f rest
    using size_get [of container "name_str f"] by auto
  done

declare validateField.simps [simp del] validateArray.simps [simp del]
  array_items.simps [simp del] array_item.simps [simp del] validateObject.simps [simp del]
  validateAsset.simps [simp del] validate_fields.simps [simp del]

section \<open>Validating a document\<close>

definition is_error :: "issue \<Rightarrow> bool" where
  "is_error i = (severity i = Error)"

definition is_warning :: "issue \<Rightarrow> bool" where
  "is_warning i = (severity i = Warning)"

definition is_info :: "issue \<Rightarrow> bool" where
  "is_info i = (severity i = Info)"

text \<open>The two issues of the check of \<^verbatim>\<open>_type\<close>.\<close>

definition missing_type_issue :: "schema_type \<Rightarrow> issue" where
  "missing_type_issue schemaType =
     \<lparr>path = ''_type'',
      message = ''Document is missing required _type field'',
      severity = Error, rule = None, val = None,
      expected = Some (name_val schemaType), field = None,
      suggestions = Some [''Add '' @ dq @ ''_type'' @ dq @ '': '' @ dq @ name_str schemaType
                           @ dq @ '' to the document'']\<rparr>"

definition type_mismatch_issue :: "platform \<Rightarrow> jsval \<Rightarrow> schema_type \<Rightarrow> issue" where
  "type_mismatch_issue P docType schemaType =
     \<lparr>path = ''_type'',
      message = ''Document type '' @ dq @ ToString P docType @ dq
                @ '' does not match expected type '' @ dq @ name_str schemaType @ dq,
      severity = Error, rule = None, val = Some docType,
      expected = Some (name_val schemaType), field = None,
      suggestions = Some [''Change _type to '' @ dq @ name_str schemaType @ dq
                           @ '' or use the correct schema type for validation'']\<rparr>"

text \<open>\<^verbatim>\<open>if (!docType) ... else if (docType !== schemaType.name) ...\<close>\<close>

definition type_issues :: "platform \<Rightarrow> jsval \<Rightarrow> schema_type \<Rightarrow> issue list" where
  "type_issues P docType schemaType =
     (if \<not> truthy docType then [missing_type_issue schemaType]
      else if docType \<noteq> name_val schemaType then [type_mismatch_issue P docType schemaType]
      else [])"

text \<open>The loop over the fields of the root type; \<open>acc\<close> is the array \<^verbatim>\<open>issues\<close>.\<close>

fun root_fields ::
  "platform \<Rightarrow> jsval \<Rightarrow> schema_type list \<Rightarrow> type_map \<Rightarrow> validate_options \<Rightarrow> bool
    \<Rightarrow> issue list \<Rightarrow> js_error + issue list" where
  "root_fields P document [] typeMap opts stop acc = Inr acc"
| "root_fields P document (f # rest) typeMap opts stop acc =
     (if stop \<and> list_ex is_error acc then Inr acc
      else case validateField P (get document (name_str f)) f (name_str f) typeMap opts of
             Inl e \<Rightarrow> Inl e
           | Inr fieldIssues \<Rightarrow>
               root_fields P document rest typeMap opts stop (acc @ fieldIssues))"

text \<open>The first part of \<^verbatim>\<open>validateDocument\<close>, up to the comment
  \<^verbatim>\<open>// Filter by severity\<close>: the array \<^verbatim>\<open>issues\<close> in the order of discovery.\<close>

definition found_issues ::
  "platform \<Rightarrow> (string \<times> jsval) list \<Rightarrow> schema_type \<Rightarrow> schema_type list \<Rightarrow> validate_options
    \<Rightarrow> js_error + issue list" where
  "found_issues P document schemaType allTypes opts =
     (let typeMap = make_type_map allTypes;
          docType = get (JObj document) ''_type''
      in case sfields schemaType of
           None \<Rightarrow> Inr (type_issues P docType schemaType)
         | Some fs \<Rightarrow>
             root_fields P (JObj document) fs typeMap opts
               (case stopOnFirstError opts of None \<Rightarrow> False | Some b \<Rightarrow> b)
               (type_issues P docType schemaType))"

definition count_part :: "nat \<Rightarrow> string \<Rightarrow> string" where
  "count_part n word = show_nat n @ '' '' @ word @ plural (n = 1)"

text \<open>The second part: the partition by severity, the summary and the result.\<close>

definition make_result ::
  "issue list \<Rightarrow> schema_type \<Rightarrow> validate_options \<Rightarrow> validation_result" where
  "make_result found schemaType opts =
     (let inclWarnings = (case includeWarnings opts of None \<Rightarrow> True | Some b \<Rightarrow> b);
          inclInfo = (case includeInfo opts of None \<Rightarrow> False | Some b \<Rightarrow> b);
          errs = filter is_error found;
          warns = (if inclWarnings then filter is_warning found else []);
          infos = (if inclInfo then filter is_info found else []);
          filteredIssues = errs @ (if inclWarnings then warns else [])
                           @ (if inclInfo then infos else []);
          parts = (if length errs > 0 then [count_part (length errs) ''error''] else [])
                  @ (if length warns > 0 then [count_part (length warns) ''warning''] else [])
                  @ (if length infos > 0 then [show_nat (length infos) @ '' info''] else [])
      in \<lparr>valid = (length errs = 0),
          issues = filteredIssues,
          errors = errs,
          warnings = warns,
          info = infos,
          documentType = sname schemaType,
          summary = (if length errs = 0 then
                       ''Document is valid''
                       @ (if length warns > 0
                          then '' ('' @ count_part (length warns) ''warning'' @ '')''
                          else [])
                     else ''Validation failed: '' @ join '', '' parts)\<rparr>)"

definition validateDocument ::
  "platform \<Rightarrow> (string \<times> jsval) list \<Rightarrow> schema_type \<Rightarrow> schema_type list \<Rightarrow> validate_options
    \<Rightarrow> js_error + validation_result" where
  "validateDocument P document schemaType allTypes opts =
     (case found_issues P document schemaType allTypes opts of
        Inl e \<Rightarrow> Inl e
      | Inr found \<Rightarrow> Inr (make_result found schemaType opts))"

section \<open>The report for agents\<close>

record agent_error =
  ae_path :: string
  ae_message :: string
  ae_suggestion :: "string option"
  ae_expected :: "jsval option"

record agent_report =
  ar_valid :: bool
  ar_summary :: string
  errorCount :: nat
  ar_errors :: "agent_error list"

text \<open>\<^verbatim>\<open>e.suggestions?.[0]\<close>\<close>

definition first_suggestion :: "issue \<Rightarrow> string option" where
  "first_suggestion e =
     (case suggestions e of None \<Rightarrow> None | Some [] \<Rightarrow> None | Some (s # rest) \<Rightarrow> Some s)"

definition agent_entry :: "issue \<Rightarrow> agent_error" where
  "agent_entry e =
     \<lparr>ae_path = path e, ae_message = message e,
      ae_suggestion = first_suggestion e, ae_expected = expected e\<rparr>"

definition formatValidationForAgent :: "validation_result \<Rightarrow> agent_report" where
  "formatValidationForAgent result =
     \<lparr>ar_valid = valid result,
      ar_summary = summary result,
      errorCount = length (errors result),
      ar_errors = map agent_entry (errors result)\<rparr>"


section \<open>Notions of the specification\<close>

text \<open>An issue that comes from the check of a field carries the context of the field;
  the two issues of the check of \<^verbatim>\<open>_type\<close> carry none.\<close>

definition of_field :: "issue list \<Rightarrow> bool" where
  "of_field found = (\<forall>i \<in> set found. field i \<noteq> None)"

text \<open>
  The normalised slug in the words of the specification: the value lowercased, runs of
  characters outside \<^verbatim>\<open>[a-z0-9]\<close> collapsed to single hyphens, and leading and
  trailing hyphens stripped. It is defined apart from \<open>slug_suggestion\<close>, which follows
  the three calls of the source: every character outside the class becomes a hyphen,
  neighbouring hyphens are squeezed into one, and all hyphens at both ends are dropped.
\<close>

definition hyphenate :: "string \<Rightarrow> string" where
  "hyphenate s = map (\<lambda>c. if alnum c then c else CHR ''-'') s"

fun squeeze :: "string \<Rightarrow> string" where
  "squeeze (a # b # cs) =
     (if a = CHR ''-'' \<and> b = CHR ''-'' then squeeze (b # cs) else a # squeeze (b # cs))"
| "squeeze cs = cs"

definition trim_hyphens :: "string \<Rightarrow> string" where
  "trim_hyphens s =
     rev (dropWhile (\<lambda>c. c = CHR ''-'') (rev (dropWhile (\<lambda>c. c = CHR ''-'') s)))"

definition normalized_slug :: "string \<Rightarrow> string" where
  "normalized_slug s = trim_hyphens (squeeze (hyphenate (toLowerCase s)))"

text \<open>No two hyphens side by side.\<close>

fun single_hyphens :: "string \<Rightarrow> bool" where
  "single_hyphens (a # b # cs) = (\<not> (a = CHR ''-'' \<and> b = CHR ''-'') \<and> single_hyphens (b # cs))"
| "single_hyphens cs = True"

text \<open>A field carries a presence rule with the constraint \<^verbatim>\<open>required\<close> in one of its
  validation groups.\<close>

definition carries_required_rule :: "schema_type \<Rightarrow> bool" where
  "carries_required_rule fld =
     (case validation fld of
        None \<Rightarrow> False
      | Some groups \<Rightarrow>
          list_ex (\<lambda>g. list_ex (\<lambda>r. flag r = ''presence'' \<and> constraint r = JStr ''required'')
                           (rules g)) groups)"

section \<open>Concrete inputs\<close>

text \<open>
  An engine for running the model on the examples below. It prints integers in decimal
  and the three special numbers by name, subtracts exactly, rounds to the integer
  \<open>\<lfloor>x + 1/2\<rfloor>\<close> and parses nothing; none of the examples prints a fraction or
  parses a number, a date, a URL or a pattern. The theorems hold for every engine.
\<close>

definition test_engine :: platform where
  "test_engine =
     \<lparr>num_to_string = (\<lambda>n. case n of
          NaN \<Rightarrow> ''NaN'' | PosInf \<Rightarrow> ''Infinity'' | NegInf \<Rightarrow> ''-Infinity''
        | Fin r \<Rightarrow> (if r < 0 then ''-'' else []) @ show_nat (nat \<lfloor>\<bar>r\<bar>\<rfloor>)),
      string_to_num = (\<lambda>s. NaN),
      num_sub = (\<lambda>a b. case (a, b) of (Fin x, Fin y) \<Rightarrow> Fin (x - y) | _ \<Rightarrow> NaN),
      num_round = (\<lambda>n. case n of Fin r \<Rightarrow> Fin (of_int \<lfloor>r + 1 / 2\<rfloor>) | _ \<Rightarrow> n),
      json_stringify = (\<lambda>v. []),
      date_time = (\<lambda>s. NaN),
      url_parses = (\<lambda>s. False),
      regexp_test = (\<lambda>p s. None)\<rparr>"

definition no_options :: validate_options where
  "no_options = \<lparr>includeWarnings = None, includeInfo = None, stopOnFirstError = None\<rparr>"

text \<open>A field with no title, no members, no rules and no options.\<close>

definition plain_field :: "string \<Rightarrow> string \<Rightarrow> schema_type" where
  "plain_field kind name = SchemaType kind (Some name) None None None None None None"

definition required_rules :: "validation_group list" where
  "required_rules =
     [\<lparr>rules = [Rule ''presence'' (JStr ''required''), Rule ''max'' (JNum (Fin 100))],
       group_message = None, level = None\<rparr>]"

text \<open>The \<^verbatim>\<open>title\<close> field of the fixtures of the tests: a required string of at most
  100 characters.\<close>

definition title_field :: schema_type where
  "title_field =
     SchemaType ''string'' (Some ''title'') (Some ''Title'') None None None
       (Some required_rules) None"

definition document_type :: "string \<Rightarrow> schema_type list \<Rightarrow> schema_type" where
  "document_type name fs = SchemaType ''document'' (Some name) None (Some fs) None None None None"

text \<open>
  \<^verbatim>\<open>{ _type: 'post', body: { _type: 'block', _key: 'b1', children: [null] } }\<close>
  against a document type \<^verbatim>\<open>post\<close> with one field \<^verbatim>\<open>body\<close> of kind
  \<^verbatim>\<open>block\<close>.
\<close>

definition post_type :: schema_type where
  "post_type = document_type ''post'' [plain_field ''block'' ''body'']"

definition post_with_null_child :: "(string \<times> jsval) list" where
  "post_with_null_child =
     [(''_type'', JStr ''post''),
      (''body'', JObj [(''_type'', JStr ''block''), (''_key'', JStr ''b1''),
                       (''children'', JArr [JNull])])]"


definition slug_field :: schema_type where
  "slug_field = plain_field ''slug'' ''slug''"

text \<open>An article has a slug and a required title.
  \<^verbatim>\<open>{ _type: 'article', slug: { current: 'Hello World' } }\<close> has a slug that is not
  canonical and no title: the warning is found before the error.\<close>

definition article_type :: schema_type where
  "article_type = document_type ''article'' [slug_field, title_field]"

definition draft_article :: "(string \<times> jsval) list" where
  "draft_article =
     [(''_type'', JStr ''article''), (''slug'', JObj [(''current'', JStr ''Hello World'')])]"

definition slug_warning :: issue where
  "slug_warning =
     \<lparr>path = ''slug.current'',
      message = ''Slug contains invalid characters'',
      severity = Warning, rule = None, val = Some (JStr ''Hello World''),
      expected = Some (JStr ''lowercase letters, numbers, and hyphens only''),
      field = Some (field_context_of slug_field),
      suggestions = Some [''Use: '' @ dq @ ''hello-world'' @ dq]\<rparr>"

definition title_error :: issue where
  "title_error = required_issue JUndefined title_field ''title''"

text \<open>\<^verbatim>\<open>{ _type: '' }\<close> against an article type with no fields, and the draft
  above with the \<^verbatim>\<open>_type\<close> of another document type.\<close>

definition empty_type_article :: "(string \<times> jsval) list" where
  "empty_type_article = [(''_type'', JStr [])]"

definition bare_article_type :: schema_type where
  "bare_article_type = document_type ''article'' []"

definition mistyped_article :: "(string \<times> jsval) list" where
  "mistyped_article =
     [(''_type'', JStr ''post''), (''slug'', JObj [(''current'', JStr ''Hello World'')])]"

text \<open>A price, and the rules that it be a positive integer.\<close>

definition price_field :: schema_type where
  "price_field = plain_field ''number'' ''price''"

definition whole_positive :: "rule list" where
  "whole_positive = [Rule ''integer'' JUndefined, Rule ''positive'' JUndefined]"

section \<open>Lemmas\<close>

subsection \<open>Every issue of a field carries the context of the field\<close>

lemma of_field_simps [simp]:
  "of_field []" "of_field (i # is) = (field i \<noteq> None \<and> of_field is)"
  "of_field (is @ js) = (of_field is \<and> of_field js)"
  by (auto simp: of_field_def)

lemma of_field_validateString: "validateString P v f p rs c = Inr is \<Longrightarrow> of_field is"
  by (auto simp: validateString_def Let_def split: if_splits sum.splits)

lemma of_field_validateNumber: "of_field (validateNumber P v f p rs c)"
  by (auto simp: validateNumber_def split: option.splits)

lemma of_field_validateBoolean: "of_field (validateBoolean v p c)"
  by (auto simp: validateBoolean_def)

lemma of_field_validateDate: "of_field (validateDate P v f p c)"
  by (auto simp: validateDate_def split: jsval.splits)

lemma of_field_validateReference: "of_field (validateReference P v f p c)"
  by (auto simp: validateReference_def Let_def)

lemma of_field_validateSlug: "of_field (validateSlug v f p rs c)"
  by (auto simp: validateSlug_def split: jsval.splits)

lemma of_field_validateUrl: "of_field (validateUrl P v p rs c)"
  by (auto simp: validateUrl_def split: jsval.splits)

lemma of_field_block_children: "block_children xs i p c = Inr is \<Longrightarrow> of_field is"
  by (induction xs arbitrary: i "is") (auto simp: Let_def split: sum.splits)

lemma of_field_validateBlock: "validateBlock v f p c = Inr is \<Longrightarrow> of_field is"
  by (auto simp: validateBlock_def Let_def split: if_splits sum.splits dest: of_field_block_children)

lemma of_field_apply_rule: "apply_rule P v r p c = Inr is \<Longrightarrow> of_field is"
  unfolding apply_rule_def Let_def
  by (auto split: if_splits jsval.splits sum.splits option.splits bool.splits)

lemma of_field_applyValidationRules:
  "applyValidationRules P v rs p f c = Inr is \<Longrightarrow> of_field is"
  by (induction rs arbitrary: "is") (auto split: sum.splits dest: of_field_apply_rule)


lemmas validate_induct =
  validateField_validateArray_array_items_array_item_validateObject_validateAsset_validate_fields.induct

lemma of_field_validate:
  "(\<forall>is. validateField P v f p tm opts = Inr is \<longrightarrow> of_field is)"
  "(\<forall>is. validateArray P v f p tm opts c = Inr is \<longrightarrow> of_field is)"
  "(\<forall>is. array_items P xs i ms p tm opts c = Inr is \<longrightarrow> of_field is)"
  "(\<forall>is. array_item P x ip ms tm opts c = Inr is \<longrightarrow> of_field is)"
  "(\<forall>is. validateObject P v f p tm opts c = Inr is \<longrightarrow> of_field is)"
  "(\<forall>is. validateAsset P v f p tm opts c = Inr is \<longrightarrow> of_field is)"
  "(\<forall>is. validate_fields P v fs p tm opts = Inr is \<longrightarrow> of_field is)"
proof (induction P v f p tm opts and P v f p tm opts c and P xs i ms p tm opts c
         and P x ip ms tm opts c
         and P v f p tm opts c and P v f p tm opts c and P v fs p tm opts
       rule: validate_induct)
  case (1 P "value" fld pth typeMap opts)
  have arr: "\<not> is_nullish value \<Longrightarrow> stype fld = ''array'' \<Longrightarrow>
      validateArray P value fld pth typeMap opts (field_context_of fld) = Inr is \<Longrightarrow> of_field is" for "is"
    using 1(1) [OF refl refl] by simp
  have obj: "\<not> is_nullish value \<Longrightarrow> stype fld = ''object'' \<Longrightarrow>
      validateObject P value fld pth typeMap opts (field_context_of fld) = Inr is \<Longrightarrow> of_field is" for "is"
    using 1(2) [OF refl refl] by simp
  have asset: "\<not> is_nullish value \<Longrightarrow> stype fld = ''image'' \<or> stype fld = ''file'' \<Longrightarrow>
      validateAsset P value fld pth typeMap opts (field_context_of fld) = Inr is \<Longrightarrow> of_field is" for "is"
    using 1(3) [OF refl refl] by auto
  have custom: "validateObject P value t pth typeMap opts (field_context_of fld) = Inr is \<Longrightarrow>
      typeMap (JStr (stype fld)) = Some t \<Longrightarrow> \<not> is_nullish value \<Longrightarrow>
      stype fld \<notin> {''string'', ''text'', ''number'', ''boolean'', ''date'', ''datetime'', ''array'',
        ''object'', ''reference'', ''image'', ''file'', ''slug'', ''url'', ''block''} \<Longrightarrow>
      stype t = ''object'' \<Longrightarrow> sfields t \<noteq> None \<Longrightarrow> of_field is" for t "is"
    using 1(4) [OF refl refl, of t] by simp
  show ?case
  proof (intro allI impI)
    fix "is" assume a: "validateField P value fld pth typeMap opts = Inr is"
    show "of_field is"
    proof (cases "is_nullish value")
      case True
      with a show ?thesis
        by (auto simp: validateField.simps Let_def required_issue_def split: if_splits)
    next
      case False
      with a show ?thesis
        apply (simp add: validateField.simps Let_def split: sum.splits)
        apply (simp split: if_splits option.splits)
        apply (auto simp: of_field_validateNumber of_field_validateBoolean of_field_validateDate
               of_field_validateReference of_field_validateSlug of_field_validateUrl
               intro: of_field_validateString of_field_validateBlock
                 of_field_applyValidationRules arr obj asset)
        apply (rule custom, assumption, assumption, simp, simp, simp, simp)
        apply (erule of_field_applyValidationRules)
        done
    qed
  qed
next
  case (2 P "value" fld pth typeMap opts fieldContext)
  show ?case
    apply (subst validateArray.simps)
    using 2 by (auto split: jsval.splits)
next
  case (3 P items i memberTypes pth typeMap opts fieldContext)
  show ?case
    apply (subst array_items.simps)
    using 3 by (auto split: list.splits sum.splits)
next
  case (4 P item itemPath memberTypes typeMap opts fieldContext)
  show ?case
    apply (subst array_item.simps)
    using 4 by (auto simp: Let_def split: if_splits option.splits sum.splits)
next
  case (5 P "value" fld pth typeMap opts fieldContext)
  show ?case
    apply (subst validateObject.simps)
    using 5 by (auto split: if_splits option.splits)
next
  case (6 P "value" fld pth typeMap opts fieldContext)
  show ?case
    apply (subst validateAsset.simps)
    using 6 by (auto simp: Let_def split: if_splits option.splits sum.splits)
next
  case (7 P container fs prefix typeMap opts)
  show ?case
    apply (subst validate_fields.simps)
    using 7 by (auto split: list.splits sum.splits)
qed

subsection \<open>The checks of a field do not read the options\<close>

text \<open>\<^verbatim>\<open>validateField\<close> and the checks it calls pass the options on and never read
  them.\<close>

lemma validate_options_irrelevant:
  "validateField P v f p tm opts = validateField P v f p tm opts'"
  "validateArray P v f p tm opts c = validateArray P v f p tm opts' c"
  "array_items P xs i ms p tm opts c = array_items P xs i ms p tm opts' c"
  "array_item P x ip ms tm opts c = array_item P x ip ms tm opts' c"
  "validateObject P v f p tm opts c = validateObject P v f p tm opts' c"
  "validateAsset P v f p tm opts c = validateAsset P v f p tm opts' c"
  "validate_fields P v fs p tm opts = validate_fields P v fs p tm opts'"
proof (induction P v f p tm opts and P v f p tm opts c and P xs i ms p tm opts c
         and P x ip ms tm opts c
         and P v f p tm opts c and P v f p tm opts c and P v fs p tm opts
       rule: validate_induct)
  case (1 P "value" fld pth typeMap opts)
  have arr: "\<not> is_nullish value \<Longrightarrow> stype fld = ''array'' \<Longrightarrow>
      validateArray P value fld pth typeMap opts (field_context_of fld)
      = validateArray P value fld pth typeMap opts' (field_context_of fld)"
    using 1(1) [OF refl refl] by simp
  have obj: "\<not> is_nullish value \<Longrightarrow> stype fld = ''object'' \<Longrightarrow>
      validateObject P value fld pth typeMap opts (field_context_of fld)
      = validateObject P value fld pth typeMap opts' (field_context_of fld)"
    using 1(2) [OF refl refl] by simp
  have asset: "\<not> is_nullish value \<Longrightarrow> stype fld = ''image'' \<or> stype fld = ''file'' \<Longrightarrow>
      validateAsset P value fld pth typeMap opts (field_context_of fld)
      = validateAsset P value fld pth typeMap opts' (field_context_of fld)"
    using 1(3) [OF refl refl] by auto
  have custom: "typeMap (JStr (stype fld)) = Some t \<Longrightarrow> \<not> is_nullish value \<Longrightarrow>
      stype fld \<notin> {''string'', ''text'', ''number'', ''boolean'', ''date'', ''datetime'', ''array'',
        ''object'', ''reference'', ''image'', ''file'', ''slug'', ''url'', ''block''} \<Longrightarrow>
      stype t = ''object'' \<Longrightarrow> sfields t \<noteq> None \<Longrightarrow>
      validateObject P value t pth typeMap opts (field_context_of fld)
      = validateObject P value t pth typeMap opts' (field_context_of fld)" for t
    using 1(4) [OF refl refl, of t] by simp
  show ?case
  proof (cases "is_nullish value")
    case True
    then show ?thesis
      by (simp add: validateField.simps Let_def)
  next
    case False
    then show ?thesis
      apply (subst validateField.simps)
      apply (subst validateField.simps)
      apply (simp add: Let_def arr obj asset)
      apply (auto split: option.splits simp: custom)
      done
  qed
next
  case (2 P "value" fld pth typeMap opts fieldContext)
  show ?case
    apply (subst validateArray.simps)
    apply (subst validateArray.simps)
    using 2 by (auto split: jsval.splits)
next
  case (3 P items i memberTypes pth typeMap opts fieldContext)
  show ?case
    apply (subst array_items.simps)
    apply (subst array_items.simps [of _ items _ _ _ _ opts'])
    using 3 by (auto split: list.splits sum.splits)
next
  case (4 P item itemPath memberTypes typeMap opts fieldContext)
  show ?case
    apply (subst array_item.simps)
    apply (subst array_item.simps)
    using 4 by (auto simp: Let_def split: if_splits option.splits sum.splits)
next
  case (5 P "value" fld pth typeMap opts fieldContext)
  show ?case
    apply (subst validateObject.simps)
    apply (subst validateObject.simps)
    using 5 by (auto split: if_splits option.splits)
next
  case (6 P "value" fld pth typeMap opts fieldContext)
  show ?case
    apply (subst validateAsset.simps)
    apply (subst validateAsset.simps)
    using 6 by (auto simp: Let_def split: if_splits option.splits sum.splits)
next
  case (7 P container fs prefix typeMap opts)
  show ?case
    apply (subst validate_fields.simps)
    apply (subst validate_fields.simps [of _ _ fs _ _ opts'])
    using 7 by (auto split: list.splits sum.splits)
qed

subsection \<open>The loop over the root fields and the result\<close>

lemma root_fields_options:
  "root_fields P doc fs tm opts stop acc = root_fields P doc fs tm opts' stop acc"
  by (induction fs arbitrary: acc)
     (simp_all add: validate_options_irrelevant(1) [of _ _ _ _ _ opts opts'] split: sum.splits)

lemma root_fields_all:
  "root_fields P doc fs tm opts False acc = Inr found \<Longrightarrow>
   \<exists>fieldIssues.
     list_all2 (\<lambda>f is. validateField P (get doc (name_str f)) f (name_str f) tm opts = Inr is)
       fs fieldIssues
     \<and> found = acc @ concat fieldIssues"
proof (induction fs arbitrary: acc)
  case Nil
  then show ?case by simp
next
  case (Cons f fs)
  from Cons.prems obtain fi where
    fi: "validateField P (get doc (name_str f)) f (name_str f) tm opts = Inr fi"
    and rest: "root_fields P doc fs tm opts False (acc @ fi) = Inr found"
    by (auto split: sum.splits)
  from Cons.IH [OF rest] obtain fis where
    "list_all2 (\<lambda>f is. validateField P (get doc (name_str f)) f (name_str f) tm opts = Inr is) fs fis"
    "found = (acc @ fi) @ concat fis"
    by blast
  with fi show ?case
    by (intro exI [of _ "fi # fis"]) simp
qed

lemma root_fields_prefix:
  "root_fields P doc fs tm opts stop acc = Inr found \<Longrightarrow>
   \<exists>rest. found = acc @ rest \<and> of_field rest"
proof (induction fs arbitrary: acc)
  case Nil
  then show ?case by simp
next
  case (Cons f fs)
  show ?case
  proof (cases "stop \<and> list_ex is_error acc")
    case True
    with Cons.prems show ?thesis by auto
  next
    case False
    with Cons.prems obtain fi where
      fi: "validateField P (get doc (name_str f)) f (name_str f) tm opts = Inr fi"
      and rest: "root_fields P doc fs tm opts stop (acc @ fi) = Inr found"
      by (auto split: sum.splits)
    from Cons.IH [OF rest] obtain more where "found = (acc @ fi) @ more" "of_field more"
      by blast
    moreover have "of_field fi"
      using of_field_validate(1) fi by blast
    ultimately show ?thesis by auto
  qed
qed

lemma found_issues_options:
  "stopOnFirstError opts' = stopOnFirstError opts \<Longrightarrow>
   found_issues P d t ts opts' = found_issues P d t ts opts"
  by (simp add: found_issues_def Let_def root_fields_options [of _ _ _ _ opts' _ _ opts]
      split: option.splits)

lemma found_issues_prefix:
  "found_issues P d t ts opts = Inr found \<Longrightarrow>
   \<exists>rest. found = type_issues P (get (JObj d) ''_type'') t @ rest \<and> of_field rest"
  by (auto simp: found_issues_def Let_def split: option.splits dest: root_fields_prefix)

lemma validateDocument_Inr:
  "validateDocument P d t ts opts = Inr r \<longleftrightarrow>
   (\<exists>found. found_issues P d t ts opts = Inr found \<and> r = make_result found t opts)"
  by (auto simp: validateDocument_def split: sum.splits)

lemma make_result_errors [simp]: "errors (make_result found t opts) = filter is_error found"
  by (simp add: make_result_def Let_def)

lemma make_result_valid [simp]:
  "valid (make_result found t opts) = (filter is_error found = [])"
  by (simp add: make_result_def Let_def)

lemma make_result_issues:
  "issues (make_result found t opts) =
     filter is_error found
     @ (if includeWarnings opts = Some False then [] else filter is_warning found)
     @ (if includeInfo opts = Some True then filter is_info found else [])"
  by (auto simp: make_result_def Let_def split: option.splits)

lemma make_result_warnings:
  "warnings (make_result found t opts) =
     (if includeWarnings opts = Some False then [] else filter is_warning found)"
  by (auto simp: make_result_def Let_def split: option.splits)

lemma make_result_info:
  "info (make_result found t opts) =
     (if includeInfo opts = Some True then filter is_info found else [])"
  by (auto simp: make_result_def Let_def split: option.splits)


lemma make_result_valid_issues:
  "valid (make_result found t opts)
   \<longleftrightarrow> (\<forall>i \<in> set (issues (make_result found t opts)). severity i \<noteq> Error)"
proof -
  have "filter is_error found = [] \<longleftrightarrow> (\<forall>i \<in> set found. severity i \<noteq> Error)"
    by (simp add: filter_empty_conv is_error_def)
  moreover have "(\<forall>i \<in> set (issues (make_result found t opts)). severity i \<noteq> Error)
      \<longleftrightarrow> (\<forall>i \<in> set found. severity i \<noteq> Error)"
    unfolding make_result_issues
    by (auto simp: is_error_def is_warning_def is_info_def)
  ultimately show ?thesis by simp
qed

lemma filter_error_warning [simp]: "filter (\<lambda>x. is_warning x \<and> is_error x) xs = []"
  by (simp add: filter_empty_conv is_error_def is_warning_def)

lemma filter_error_info [simp]: "filter (\<lambda>x. is_info x \<and> is_error x) xs = []"
  by (simp add: filter_empty_conv is_error_def is_info_def)

lemma filter_error_issues:
  "filter is_error (issues (make_result found t opts)) = filter is_error found"
  by (simp add: make_result_issues)

lemma missing_not_mismatch: "type_mismatch_issue P v t \<noteq> missing_type_issue t"
  by (simp add: type_mismatch_issue_def missing_type_issue_def)

lemma of_field_filter_none: "of_field xs \<Longrightarrow> filter (\<lambda>i. Q i \<and> field i = None) xs = []"
  by (auto simp: of_field_def filter_empty_conv)

lemma found_issues_all:
  assumes "found_issues P d t ts opts = Inr found" and "stopOnFirstError opts \<noteq> Some True"
  shows "\<exists>fieldIssues.
     list_all2 (\<lambda>f is. validateField P (get (JObj d) (name_str f)) f (name_str f)
                          (make_type_map ts) opts = Inr is)
       (case sfields t of None \<Rightarrow> [] | Some fs \<Rightarrow> fs) fieldIssues
     \<and> found = type_issues P (get (JObj d) ''_type'') t @ concat fieldIssues"
proof (cases "sfields t")
  case None
  with assms(1) show ?thesis
    by (simp add: found_issues_def)
next
  case (Some fs)
  have stop: "(case stopOnFirstError opts of None \<Rightarrow> False | Some b \<Rightarrow> b) = False"
    using assms(2) by (cases "stopOnFirstError opts") auto
  from assms(1) have
    "root_fields P (JObj d) fs (make_type_map ts) opts False
       (type_issues P (get (JObj d) ''_type'') t) = Inr found"
    by (simp add: found_issues_def Some stop)
  from root_fields_all [OF this] show ?thesis
    by (simp add: Some)
qed

subsection \<open>The suggested slug is the normalised slug\<close>

lemma alnum_not_hyphen: "alnum c \<Longrightarrow> c \<noteq> CHR ''-''"
  by (auto simp: alnum_def)

lemma squeeze_Cons_other: "a \<noteq> CHR ''-'' \<Longrightarrow> squeeze (a # cs) = a # squeeze cs"
  by (cases cs) auto

lemma squeeze_hyphen_run:
  "squeeze (CHR ''-'' # hyphenate cs)
     = CHR ''-'' # squeeze (hyphenate (dropWhile (\<lambda>d. \<not> alnum d) cs))"
proof (induction cs)
  case Nil
  then show ?case by (simp add: hyphenate_def)
next
  case (Cons d ds)
  then show ?case
    by (cases "alnum d") (auto simp: hyphenate_def alnum_not_hyphen)
qed

lemma replace_runs_squeeze: "replace_runs s = squeeze (hyphenate s)"
proof (induction s rule: replace_runs.induct)
  case 1
  then show ?case by (simp add: hyphenate_def)
next
  case (2 c cs)
  show ?case
  proof (cases "alnum c")
    case True
    with 2 show ?thesis
      by (simp add: hyphenate_def squeeze_Cons_other alnum_not_hyphen)
  next
    case False
    with 2 have "replace_runs (c # cs)
        = CHR ''-'' # squeeze (hyphenate (dropWhile (\<lambda>d. \<not> alnum d) cs))"
      by simp
    also have "\<dots> = squeeze (CHR ''-'' # hyphenate cs)"
      by (simp add: squeeze_hyphen_run)
    also have "\<dots> = squeeze (hyphenate (c # cs))"
      using False by (simp add: hyphenate_def)
    finally show ?thesis .
  qed
qed

lemma squeeze_hd: "squeeze (a # cs) \<noteq> [] \<and> hd (squeeze (a # cs)) = a"
  by (induction cs arbitrary: a) auto

lemma single_hyphens_Cons:
  "single_hyphens (a # cs) \<longleftrightarrow>
     (cs = [] \<or> (\<not> (a = CHR ''-'' \<and> hd cs = CHR ''-'') \<and> single_hyphens cs))"
  by (cases cs) auto

lemma single_hyphens_squeeze: "single_hyphens (squeeze s)"
proof (induction s rule: squeeze.induct)
  case (1 a b cs)
  then show ?case
    using squeeze_hd [of b cs] by (auto simp: single_hyphens_Cons)
qed simp_all

lemma single_hyphens_append: "single_hyphens (xs @ ys) \<Longrightarrow> single_hyphens ys"
proof (induction xs)
  case (Cons x xs)
  then show ?case by (cases "xs @ ys") auto
qed simp

lemma single_hyphens_tl: "single_hyphens (a # cs) \<Longrightarrow> single_hyphens cs"
  by (cases cs) auto

lemma drop_leading:
  assumes "single_hyphens s"
  shows "dropWhile (\<lambda>c. c = CHR ''-'') s
     = (case s of [] \<Rightarrow> [] | c # cs \<Rightarrow> if c = CHR ''-'' then cs else s)"
proof (cases s)
  case (Cons c cs)
  with assms show ?thesis
    by (cases cs) auto
qed simp

lemma drop_trailing:
  assumes "single_hyphens s"
  shows "rev (dropWhile (\<lambda>c. c = CHR ''-'') (rev s))
     = (if s \<noteq> [] \<and> last s = CHR ''-'' then butlast s else s)"
proof (cases s rule: rev_cases)
  case Nil
  then show ?thesis by simp
next
  case (snoc ys y)
  show ?thesis
  proof (cases "y = CHR ''-''")
    case False
    with snoc show ?thesis by simp
  next
    case True
    show ?thesis
    proof (cases ys rule: rev_cases)
      case Nil
      with snoc True show ?thesis by simp
    next
      case (snoc zs z)
      with \<open>s = ys @ [y]\<close> True assms have "single_hyphens (zs @ [z, CHR ''-''])"
        by simp
      then have "single_hyphens [z, CHR ''-'']"
        by (rule single_hyphens_append)
      then have "z \<noteq> CHR ''-''"
        by simp
      with snoc \<open>s = ys @ [y]\<close> True show ?thesis
        by (simp add: butlast_append)
    qed
  qed
qed

lemma strip_ends_trim: "single_hyphens s \<Longrightarrow> strip_ends s = trim_hyphens s"
proof -
  assume s: "single_hyphens s"
  have "single_hyphens (case s of [] \<Rightarrow> [] | c # cs \<Rightarrow> if c = CHR ''-'' then cs else s)"
    using s by (auto split: list.splits dest: single_hyphens_tl)
  then show ?thesis
    unfolding strip_ends_def trim_hyphens_def Let_def drop_leading [OF s]
    by (simp add: drop_trailing)
qed

lemma slug_suggestion_normalized: "slug_suggestion s = normalized_slug s"
  by (simp add: slug_suggestion_def normalized_slug_def replace_runs_squeeze
      strip_ends_trim single_hyphens_squeeze)

lemma slug_match_chars: "slug_match prev s \<Longrightarrow> c \<in> set s \<Longrightarrow> alnum c \<or> c = CHR ''-''"
  by (induction s arbitrary: prev) (auto split: if_splits)

lemma apply_rule_object:
  "\<exists>found. apply_rule P (JObj kvs) r p c = Inr found \<and> (\<forall>i \<in> set found. severity i = Info)"
  by (simp add: apply_rule_def)

lemma applyValidationRules_object:
  "\<exists>found. applyValidationRules P (JObj kvs) rs p f c = Inr found
     \<and> (\<forall>i \<in> set found. severity i = Info)"
proof (induction rs)
  case Nil
  then show ?case by simp
next
  case (Cons r rs)
  from apply_rule_object [of P kvs r p c] obtain a where
    a: "apply_rule P (JObj kvs) r p c = Inr a" "\<forall>i \<in> set a. severity i = Info"
    by blast
  from Cons obtain b where
    b: "applyValidationRules P (JObj kvs) rs p f c = Inr b" "\<forall>i \<in> set b. severity i = Info"
    by blast
  from a b show ?case
    by auto
qed

lemma last_show_nat: "last (show_nat n) = char_of (48 + n mod 10)"
  by (subst show_nat.simps) simp

lemma show_nat_not_current: "show_nat n \<noteq> ''current''"
proof
  assume "show_nat n = ''current''"
  then have "last (show_nat n) = CHR ''t''"
    by simp
  then have "of_char (char_of (48 + n mod 10) :: char) = (of_char CHR ''t'' :: nat)"
    by (simp add: last_show_nat)
  then show False
    by simp
qed

lemma array_has_no_current: "get (JArr xs) ''current'' = JUndefined"
proof -
  have none: "map_of (zip (map show_nat [0..<length xs]) xs) ''current'' = None"
  proof (rule ccontr)
    assume "map_of (zip (map show_nat [0..<length xs]) xs) ''current'' \<noteq> None"
    then obtain v where "map_of (zip (map show_nat [0..<length xs]) xs) ''current'' = Some v"
      unfolding not_None_eq by (elim exE)
    then have "(''current'', v) \<in> set (zip (map show_nat [0..<length xs]) xs)"
      by (rule map_of_SomeD)
    then have "''current'' \<in> set (map show_nat [0..<length xs])"
      by (rule set_zip_leftD)
    then obtain n where "show_nat n = ''current''"
      by auto
    with show_nat_not_current [of n] show False
      by simp
  qed
  show ?thesis
    unfolding get.simps none by simp
qed

subsection \<open>The examples, evaluated\<close>

lemma draft_article_found:
  "found_issues P draft_article article_type [] no_options = Inr [slug_warning, title_error]"
  by code_simp

lemma empty_type_article_found:
  "found_issues P empty_type_article bare_article_type [] no_options
     = Inr [missing_type_issue bare_article_type]"
  by code_simp

lemma mistyped_article_found:
  "found_issues P mistyped_article article_type [] no_options
     = Inr [type_mismatch_issue P (JStr ''post'') article_type, slug_warning, title_error]"
  by code_simp

section \<open>Properties\<close>

subsection \<open>Exceptions\<close>

text \<open>
  C1. The claim: \<^verbatim>\<open>validateDocument\<close> never throws, whatever the document holds, and
  in particular \<^verbatim>\<open>validateBlock\<close> is total when the \<^verbatim>\<open>children\<close> array of a block
  holds \<^verbatim>\<open>null\<close>. The code throws there: for the document
  \<^verbatim>\<open>{ _type: 'post', body: { _type: 'block', _key: 'b1', children: [null] } }\<close> and
  a root type whose field \<^verbatim>\<open>body\<close> is of kind \<^verbatim>\<open>block\<close>, the call ends in a
  \<^verbatim>\<open>TypeError\<close> and returns no result, on every engine.
\<close>

theorem block_null_child_throws:
  "validateDocument P post_with_null_child post_type [] no_options = Inl TypeError"
  by (simp add: validateDocument_def found_issues_def post_type_def
      post_with_null_child_def document_type_def plain_field_def no_options_def
      getValidationRules_def is_required_def name_str_def
      validateBlock_def get_prop_def validateField.simps Let_def)


text \<open>Two more places throw, on a schema that its types allow: a \<^verbatim>\<open>length\<close> or
  \<^verbatim>\<open>regex\<close> rule with no constraint when the value is a string, and a \<^verbatim>\<open>null\<close> entry
  in the \<^verbatim>\<open>list\<close> option of a string field.\<close>

lemma rule_without_constraint_throws:
  "apply_rule P (JStr s) (Rule ''length'' JUndefined) pth c = Inl TypeError"
  "apply_rule P (JStr s) (Rule ''regex'' JUndefined) pth c = Inl TypeError"
  by (simp_all add: apply_rule_def get_prop_def)

lemma null_list_entry_throws: "list_values [JNull] = Inl TypeError"
  by (simp add: list_value_def get_prop_def)

subsection \<open>The flag \<^verbatim>\<open>valid\<close>\<close>

text \<open>
  C2. Whenever \<^verbatim>\<open>validateDocument\<close> returns a result, \<^verbatim>\<open>valid\<close> is true exactly
  when \<^verbatim>\<open>errors\<close> is empty, and exactly when no issue of the result has the severity
  error, so warnings and info never change it; and for the same document, root type and
  catalog, every other setting of \<^verbatim>\<open>includeWarnings\<close> and \<^verbatim>\<open>includeInfo\<close> returns
  a result with the same \<^verbatim>\<open>valid\<close> and the same errors.
\<close>

theorem valid_iff_no_errors:
  assumes "validateDocument P d t ts opts = Inr r"
  shows "(valid r \<longleftrightarrow> errors r = [])
    \<and> (valid r \<longleftrightarrow> (\<forall>i \<in> set (issues r). severity i \<noteq> Error))
    \<and> (\<forall>w n. \<exists>r'. validateDocument P d t ts (opts\<lparr>includeWarnings := w, includeInfo := n\<rparr>) = Inr r'
          \<and> valid r' = valid r \<and> errors r' = errors r)"
proof -
  from assms obtain found where
    found: "found_issues P d t ts opts = Inr found" and r: "r = make_result found t opts"
    unfolding validateDocument_Inr by blast
  have 1: "valid r \<longleftrightarrow> errors r = []"
    unfolding r by simp
  have 2: "valid r \<longleftrightarrow> (\<forall>i \<in> set (issues r). severity i \<noteq> Error)"
    unfolding r by (rule make_result_valid_issues)
  have 3: "\<exists>r'. validateDocument P d t ts (opts\<lparr>includeWarnings := w, includeInfo := n\<rparr>) = Inr r'
          \<and> valid r' = valid r \<and> errors r' = errors r" for w n
  proof -
    have "found_issues P d t ts (opts\<lparr>includeWarnings := w, includeInfo := n\<rparr>) = Inr found"
      using found
        found_issues_options [of "opts\<lparr>includeWarnings := w, includeInfo := n\<rparr>" opts P d t ts]
      by simp
    then have "validateDocument P d t ts (opts\<lparr>includeWarnings := w, includeInfo := n\<rparr>)
        = Inr (make_result found t (opts\<lparr>includeWarnings := w, includeInfo := n\<rparr>))"
      by (simp add: validateDocument_def)
    then show ?thesis
      unfolding r by simp
  qed
  show ?thesis
    using 1 2 3 by (intro conjI allI)
qed

theorem valid_iff_no_errors_witness:
  "validateDocument test_engine draft_article article_type [] no_options
     = Inr (make_result [slug_warning, title_error] article_type no_options)
   \<and> (valid (make_result [slug_warning, title_error] article_type no_options)
        \<longleftrightarrow> errors (make_result [slug_warning, title_error] article_type no_options) = [])
   \<and> (\<exists>r'. validateDocument test_engine draft_article article_type []
          (no_options\<lparr>includeWarnings := Some False, includeInfo := Some True\<rparr>) = Inr r'
        \<and> valid r' = valid (make_result [slug_warning, title_error] article_type no_options))"
proof -
  have run: "validateDocument test_engine draft_article article_type [] no_options
      = Inr (make_result [slug_warning, title_error] article_type no_options)"
    by (simp add: validateDocument_def draft_article_found)
  from valid_iff_no_errors [OF run] run show ?thesis
    by blast
qed

subsection \<open>A required field that is missing\<close>

text \<open>
  C3. For a field that carries a presence rule with the constraint \<^verbatim>\<open>required\<close> and a
  value that is \<^verbatim>\<open>undefined\<close> or \<^verbatim>\<open>null\<close>, \<^verbatim>\<open>validateField\<close> returns exactly
  one issue, of severity error, at the path of the field: no check of the kind and no
  rule runs, whatever the kind of the field, the catalog and the options are.
\<close>

theorem required_missing_one_error:
  assumes "carries_required_rule fld" and "value = JUndefined \<or> value = JNull"
  shows "validateField P value fld pth typeMap opts = Inr [required_issue value fld pth]
    \<and> severity (required_issue value fld pth) = Error
    \<and> path (required_issue value fld pth) = pth"
proof -
  have "is_required (getValidationRules fld)"
    using assms(1)
    by (auto simp: carries_required_rule_def getValidationRules_def is_required_def
        list_ex_iff split: option.splits)
  moreover have "is_nullish value"
    using assms(2) by auto
  ultimately show ?thesis
    by (simp add: validateField.simps required_issue_def)
qed

theorem required_missing_one_error_witness:
  "carries_required_rule title_field
   \<and> validateField test_engine JNull title_field ''title'' (make_type_map []) no_options
       = Inr [required_issue JNull title_field ''title'']
   \<and> severity (required_issue JNull title_field ''title'') = Error"
proof -
  have c: "carries_required_rule title_field"
    by (simp add: carries_required_rule_def title_field_def required_rules_def)
  from required_missing_one_error [OF c, of JNull] c show ?thesis
    by simp
qed

subsection \<open>The order of the issues\<close>

text \<open>
  C10. In every result, \<^verbatim>\<open>issues\<close> is \<^verbatim>\<open>errors\<close>, then \<^verbatim>\<open>warnings\<close>, then
  \<^verbatim>\<open>info\<close>: all issues of severity error in the order in which they were found, then
  the warnings unless \<^verbatim>\<open>includeWarnings\<close> is false, then the info if
  \<^verbatim>\<open>includeInfo\<close> is true. Every error that was found is in \<^verbatim>\<open>issues\<close>, whatever
  the two options are. The example shows that this is not the order of discovery: the
  warning of the slug is found first and listed second.
\<close>

theorem issues_partitioned_by_severity:
  assumes "validateDocument P d t ts opts = Inr r"
  shows "\<exists>found. found_issues P d t ts opts = Inr found
    \<and> errors r = filter is_error found
    \<and> warnings r = (if includeWarnings opts = Some False then [] else filter is_warning found)
    \<and> info r = (if includeInfo opts = Some True then filter is_info found else [])
    \<and> issues r = errors r @ warnings r @ info r
    \<and> set (filter is_error found) \<subseteq> set (issues r)"
proof -
  from assms obtain found where
    found: "found_issues P d t ts opts = Inr found" and r: "r = make_result found t opts"
    unfolding validateDocument_Inr by blast
  have "issues r = errors r @ warnings r @ info r"
    unfolding r by (simp add: make_result_issues make_result_warnings make_result_info)
  moreover have "errors r = filter is_error found"
    unfolding r by simp
  moreover have "warnings r = (if includeWarnings opts = Some False then [] else filter is_warning found)"
    unfolding r by (rule make_result_warnings)
  moreover have "info r = (if includeInfo opts = Some True then filter is_info found else [])"
    unfolding r by (rule make_result_info)
  moreover have "set (filter is_error found) \<subseteq> set (issues r)"
    unfolding r make_result_issues by auto
  ultimately show ?thesis
    using found by blast
qed

theorem issues_partitioned_by_severity_witness:
  "validateDocument test_engine draft_article article_type [] no_options
     = Inr (make_result [slug_warning, title_error] article_type no_options)
   \<and> found_issues test_engine draft_article article_type [] no_options
     = Inr [slug_warning, title_error]
   \<and> issues (make_result [slug_warning, title_error] article_type no_options)
     = [title_error, slug_warning]"
proof -
  have run: "validateDocument test_engine draft_article article_type [] no_options
      = Inr (make_result [slug_warning, title_error] article_type no_options)"
    by (simp add: validateDocument_def draft_article_found)
  have sev: "is_error title_error" "\<not> is_error slug_warning" "is_warning slug_warning"
    "\<not> is_warning title_error"
    by (simp_all add: is_error_def is_warning_def title_error_def slug_warning_def
        required_issue_def)
  from issues_partitioned_by_severity [OF run] obtain found where
    f: "found_issues test_engine draft_article article_type [] no_options = Inr found"
    and e: "errors (make_result [slug_warning, title_error] article_type no_options)
       = filter is_error found"
    and w: "warnings (make_result [slug_warning, title_error] article_type no_options)
       = (if includeWarnings no_options = Some False then [] else filter is_warning found)"
    and n: "info (make_result [slug_warning, title_error] article_type no_options)
       = (if includeInfo no_options = Some True then filter is_info found else [])"
    and i: "issues (make_result [slug_warning, title_error] article_type no_options)
       = errors (make_result [slug_warning, title_error] article_type no_options)
         @ warnings (make_result [slug_warning, title_error] article_type no_options)
         @ info (make_result [slug_warning, title_error] article_type no_options)"
    by blast
  have found: "found = [slug_warning, title_error]"
    using f unfolding draft_article_found by simp
  have opts: "includeWarnings no_options = None" "includeInfo no_options = None"
    by (simp_all add: no_options_def)
  have "issues (make_result [slug_warning, title_error] article_type no_options)
     = [title_error, slug_warning]"
    unfolding i e w n found opts by (simp add: sev)
  with run show ?thesis
    by (simp add: draft_article_found)
qed

subsection \<open>The check of \<^verbatim>\<open>_type\<close>\<close>

text \<open>
  C4, as claimed: with \<^verbatim>\<open>stopOnFirstError\<close> unset, a \<^verbatim>\<open>_type\<close> that is present but
  not equal to the name of the root type yields an error at \<^verbatim>\<open>_type\<close> that mentions
  the mismatch. It fails for \<^verbatim>\<open>{ _type: '' }\<close>: the key is present, its value is not
  the name \<^verbatim>\<open>article\<close>, and the only issue of the result says that \<^verbatim>\<open>_type\<close> is
  missing.
\<close>

theorem empty_type_reported_as_missing:
  "has_key ''_type'' (JObj empty_type_article)
   \<and> get (JObj empty_type_article) ''_type'' \<noteq> name_val bare_article_type
   \<and> validateDocument test_engine empty_type_article bare_article_type [] no_options
       = Inr (make_result [missing_type_issue bare_article_type] bare_article_type no_options)
   \<and> map message (issues (make_result [missing_type_issue bare_article_type]
                              bare_article_type no_options))
       = [''Document is missing required _type field'']"
proof -
  have run: "validateDocument test_engine empty_type_article bare_article_type [] no_options
       = Inr (make_result [missing_type_issue bare_article_type] bare_article_type no_options)"
    by (simp add: validateDocument_def empty_type_article_found)
  have "map message (issues (make_result [missing_type_issue bare_article_type]
                              bare_article_type no_options))
       = [''Document is missing required _type field'']"
    by (simp add: make_result_issues no_options_def is_error_def is_warning_def is_info_def
        missing_type_issue_def)
  with run show ?thesis
    by (simp add: empty_type_article_def bare_article_type_def document_type_def name_val_def)
qed

text \<open>
  C4, amended: with \<^verbatim>\<open>stopOnFirstError\<close> unset and a result returned, a \<^verbatim>\<open>_type\<close>
  that is absent or falsy yields the error "missing required _type" at path
  \<^verbatim>\<open>_type\<close>, with the suggestion to add it, and \<^verbatim>\<open>valid\<close> is false; a truthy
  \<^verbatim>\<open>_type\<close> that is not the name of the root type yields the error at \<^verbatim>\<open>_type\<close>
  whose message names both types, and \<^verbatim>\<open>valid\<close> is false; and in every case each
  declared field of the root type is validated, in order, at its own name, and the
  errors of the result are the errors of the check of \<^verbatim>\<open>_type\<close> followed by those of
  the fields.
\<close>

theorem type_check_then_fields:
  assumes "validateDocument P d t ts opts = Inr r" and "stopOnFirstError opts \<noteq> Some True"
  shows "(\<not> truthy (get (JObj d) ''_type'')
            \<longrightarrow> missing_type_issue t \<in> set (errors r) \<and> \<not> valid r)
    \<and> (truthy (get (JObj d) ''_type'') \<and> get (JObj d) ''_type'' \<noteq> name_val t
            \<longrightarrow> type_mismatch_issue P (get (JObj d) ''_type'') t \<in> set (errors r) \<and> \<not> valid r)
    \<and> path (missing_type_issue t) = ''_type''
    \<and> suggestions (missing_type_issue t)
        = Some [''Add '' @ dq @ ''_type'' @ dq @ '': '' @ dq @ name_str t @ dq @ '' to the document'']
    \<and> path (type_mismatch_issue P (get (JObj d) ''_type'') t) = ''_type''
    \<and> message (type_mismatch_issue P (get (JObj d) ''_type'') t)
        = ''Document type '' @ dq @ ToString P (get (JObj d) ''_type'') @ dq
          @ '' does not match expected type '' @ dq @ name_str t @ dq
    \<and> (\<exists>fieldIssues.
          list_all2 (\<lambda>f is. validateField P (get (JObj d) (name_str f)) f (name_str f)
                               (make_type_map ts) opts = Inr is)
            (case sfields t of None \<Rightarrow> [] | Some fs \<Rightarrow> fs) fieldIssues
          \<and> errors r = filter is_error
               (type_issues P (get (JObj d) ''_type'') t @ concat fieldIssues))"
proof -
  from assms(1) obtain found where
    found: "found_issues P d t ts opts = Inr found" and r: "r = make_result found t opts"
    unfolding validateDocument_Inr by blast
  from found_issues_all [OF found assms(2)] obtain fieldIssues where
    fi: "list_all2 (\<lambda>f is. validateField P (get (JObj d) (name_str f)) f (name_str f)
                               (make_type_map ts) opts = Inr is)
            (case sfields t of None \<Rightarrow> [] | Some fs \<Rightarrow> fs) fieldIssues"
    and f: "found = type_issues P (get (JObj d) ''_type'') t @ concat fieldIssues"
    by blast
  have e: "errors r = filter is_error (type_issues P (get (JObj d) ''_type'') t @ concat fieldIssues)"
    unfolding r f by simp
  have sev: "is_error (missing_type_issue t)" "is_error (type_mismatch_issue P v t)" for v
    by (simp_all add: is_error_def missing_type_issue_def type_mismatch_issue_def)
  have 1: "missing_type_issue t \<in> set (errors r) \<and> \<not> valid r"
    if "\<not> truthy (get (JObj d) ''_type'')"
    unfolding r f using that by (simp add: type_issues_def sev)
  have 2: "type_mismatch_issue P (get (JObj d) ''_type'') t \<in> set (errors r) \<and> \<not> valid r"
    if "truthy (get (JObj d) ''_type'')" "get (JObj d) ''_type'' \<noteq> name_val t"
    unfolding r f using that by (simp add: type_issues_def sev)
  have 3: "path (missing_type_issue t) = ''_type''"
    "suggestions (missing_type_issue t)
        = Some [''Add '' @ dq @ ''_type'' @ dq @ '': '' @ dq @ name_str t @ dq @ '' to the document'']"
    "path (type_mismatch_issue P (get (JObj d) ''_type'') t) = ''_type''"
    "message (type_mismatch_issue P (get (JObj d) ''_type'') t)
        = ''Document type '' @ dq @ ToString P (get (JObj d) ''_type'') @ dq
          @ '' does not match expected type '' @ dq @ name_str t @ dq"
    by (simp_all add: missing_type_issue_def type_mismatch_issue_def)
  from 1 2 3 fi e show ?thesis
    by blast
qed

theorem type_check_then_fields_witness:
  "stopOnFirstError no_options \<noteq> Some True
   \<and> validateDocument test_engine mistyped_article article_type [] no_options
       = Inr (make_result
                [type_mismatch_issue test_engine (JStr ''post'') article_type,
                 slug_warning, title_error] article_type no_options)
   \<and> type_mismatch_issue test_engine (JStr ''post'') article_type
       \<in> set (errors (make_result
                [type_mismatch_issue test_engine (JStr ''post'') article_type,
                 slug_warning, title_error] article_type no_options))
   \<and> title_error
       \<in> set (errors (make_result
                [type_mismatch_issue test_engine (JStr ''post'') article_type,
                 slug_warning, title_error] article_type no_options))"
proof -
  have stop: "stopOnFirstError no_options \<noteq> Some True"
    by (simp add: no_options_def)
  have run: "validateDocument test_engine mistyped_article article_type [] no_options
       = Inr (make_result
                [type_mismatch_issue test_engine (JStr ''post'') article_type,
                 slug_warning, title_error] article_type no_options)"
    by (simp add: validateDocument_def mistyped_article_found)
  have doc: "get (JObj mistyped_article) ''_type'' = JStr ''post''"
    "truthy (JStr ''post'')" "JStr ''post'' \<noteq> name_val article_type"
    by (simp_all add: mistyped_article_def article_type_def document_type_def name_val_def)
  have t: "is_error title_error"
    by (simp add: is_error_def title_error_def required_issue_def)
  from type_check_then_fields [OF run stop] doc stop run show ?thesis
    by (simp add: t)
qed

text \<open>
  C9. Whether \<^verbatim>\<open>_type\<close> is there is decided by \<^verbatim>\<open>!docType\<close>: for a document whose
  \<^verbatim>\<open>_type\<close> is the empty string or any other falsy value, the check of \<^verbatim>\<open>_type\<close>
  gives what it gives for an absent key, the only issue of the result that does not come
  from a field is the error "Document is missing required _type field", it is the first
  error, and the error of a type mismatch is not in the result.
\<close>

theorem falsy_type_is_missing_type:
  assumes "\<not> truthy (get (JObj d) ''_type'')" and "validateDocument P d t ts opts = Inr r"
  shows "filter (\<lambda>i. field i = None) (issues r) = [missing_type_issue t]
    \<and> hd (errors r) = missing_type_issue t
    \<and> message (missing_type_issue t) = ''Document is missing required _type field''
    \<and> severity (missing_type_issue t) = Error
    \<and> type_mismatch_issue P (get (JObj d) ''_type'') t \<notin> set (issues r)
    \<and> type_issues P (get (JObj d) ''_type'') t = type_issues P JUndefined t"
proof -
  from assms(2) obtain found where
    found: "found_issues P d t ts opts = Inr found" and r: "r = make_result found t opts"
    unfolding validateDocument_Inr by blast
  from found_issues_prefix [OF found] assms(1) obtain rest where
    f: "found = missing_type_issue t # rest" and rest: "of_field rest"
    by (auto simp: type_issues_def)
  have m: "is_error (missing_type_issue t)" "\<not> is_warning (missing_type_issue t)"
    "\<not> is_info (missing_type_issue t)" "field (missing_type_issue t) = None"
    by (simp_all add: is_error_def is_warning_def is_info_def missing_type_issue_def)
  have 1: "filter (\<lambda>i. field i = None) (issues r) = [missing_type_issue t]"
    unfolding r make_result_issues f
    by (simp add: m of_field_filter_none [OF rest])
  have 2: "hd (errors r) = missing_type_issue t"
    unfolding r f by (simp add: m)
  have 3: "type_mismatch_issue P (get (JObj d) ''_type'') t \<notin> set (issues r)"
  proof
    assume a: "type_mismatch_issue P (get (JObj d) ''_type'') t \<in> set (issues r)"
    have "field (type_mismatch_issue P (get (JObj d) ''_type'') t) = None"
      by (simp add: type_mismatch_issue_def)
    with a have "type_mismatch_issue P (get (JObj d) ''_type'') t
        \<in> set (filter (\<lambda>i. field i = None) (issues r))"
      by simp
    then show False
      unfolding 1 by (simp add: missing_not_mismatch)
  qed
  have 4: "type_issues P (get (JObj d) ''_type'') t = type_issues P JUndefined t"
    using assms(1) by (simp add: type_issues_def)
  from 1 2 3 4 show ?thesis
    by (simp add: missing_type_issue_def)
qed

theorem falsy_type_is_missing_type_witness:
  "\<not> truthy (get (JObj empty_type_article) ''_type'')
   \<and> has_key ''_type'' (JObj empty_type_article)
   \<and> validateDocument test_engine empty_type_article bare_article_type [] no_options
       = Inr (make_result [missing_type_issue bare_article_type] bare_article_type no_options)
   \<and> hd (errors (make_result [missing_type_issue bare_article_type] bare_article_type no_options))
       = missing_type_issue bare_article_type"
proof -
  have t: "\<not> truthy (get (JObj empty_type_article) ''_type'')"
    by (simp add: empty_type_article_def)
  have run: "validateDocument test_engine empty_type_article bare_article_type [] no_options
       = Inr (make_result [missing_type_issue bare_article_type] bare_article_type no_options)"
    by (simp add: validateDocument_def empty_type_article_found)
  from falsy_type_is_missing_type [OF t run] t run show ?thesis
    by (simp add: empty_type_article_def)
qed

subsection \<open>The report for agents\<close>

text \<open>
  C8. For every result that \<^verbatim>\<open>validateDocument\<close> returns,
  \<^verbatim>\<open>formatValidationForAgent\<close> returns \<^verbatim>\<open>valid\<close> and \<^verbatim>\<open>summary\<close> unchanged, the
  number of issues of severity error as \<^verbatim>\<open>errorCount\<close>, and one entry for each issue
  of severity error and for no other, in order, with the path, the message and
  \<^verbatim>\<open>expected\<close> of the issue and the first of its suggestions, if it has one.
\<close>

theorem agent_report_of_result:
  assumes "validateDocument P d t ts opts = Inr r"
  shows "formatValidationForAgent r =
      \<lparr>ar_valid = valid r,
       ar_summary = summary r,
       errorCount = length (filter is_error (issues r)),
       ar_errors = map (\<lambda>e. \<lparr>ae_path = path e, ae_message = message e,
                           ae_suggestion = (case suggestions e of
                                              Some (s # rest) \<Rightarrow> Some s | _ \<Rightarrow> None),
                           ae_expected = expected e\<rparr>)
                       (filter is_error (issues r))\<rparr>"
proof -
  from assms obtain found where r: "r = make_result found t opts"
    unfolding validateDocument_Inr by blast
  have e: "errors r = filter is_error (issues r)"
    unfolding r by (simp add: filter_error_issues)
  have entry: "agent_entry = (\<lambda>e. \<lparr>ae_path = path e, ae_message = message e,
                           ae_suggestion = (case suggestions e of
                                              Some (s # rest) \<Rightarrow> Some s | _ \<Rightarrow> None),
                           ae_expected = expected e\<rparr>)"
    by (auto simp: agent_entry_def first_suggestion_def fun_eq_iff split: option.splits list.splits)
  show ?thesis
    unfolding formatValidationForAgent_def e entry ..
qed

theorem agent_report_of_result_witness:
  "validateDocument test_engine draft_article article_type [] no_options
     = Inr (make_result [slug_warning, title_error] article_type no_options)
   \<and> errorCount (formatValidationForAgent
         (make_result [slug_warning, title_error] article_type no_options)) = 1
   \<and> map ae_suggestion (ar_errors (formatValidationForAgent
         (make_result [slug_warning, title_error] article_type no_options)))
       = [Some ''Provide a value for title'']"
proof -
  have run: "validateDocument test_engine draft_article article_type [] no_options
      = Inr (make_result [slug_warning, title_error] article_type no_options)"
    by (simp add: validateDocument_def draft_article_found)
  have sev: "is_error title_error" "\<not> is_error slug_warning" "is_warning slug_warning"
    "\<not> is_warning title_error"
    by (simp_all add: is_error_def is_warning_def title_error_def slug_warning_def
        required_issue_def)
  have i: "filter is_error (issues (make_result [slug_warning, title_error] article_type no_options))
      = [title_error]"
    by (simp add: filter_error_issues sev)
  have s: "suggestions title_error = Some [''Provide a value for title'']"
    by (simp add: title_error_def required_issue_def name_str_def title_field_def)
  from agent_report_of_result [OF run] run show ?thesis
    by (simp add: i s)
qed

subsection \<open>Slugs\<close>

text \<open>
  C6. For a slug field whose value is an object with a non-empty string \<^verbatim>\<open>current\<close>
  that holds a character other than a lowercase letter, a digit or a hyphen,
  \<^verbatim>\<open>validateSlug\<close> returns one issue: a warning at \<^verbatim>\<open>path.current\<close> whose only
  suggestion is \<^verbatim>\<open>Use: "..."\<close> around the normalised slug of the specification. No
  error comes with it: \<^verbatim>\<open>validateField\<close> returns the warning followed by issues of
  severity info only (one for each \<^verbatim>\<open>custom\<close> rule of the field).
\<close>

theorem slug_warning_with_normalized_suggestion:
  assumes "typeof value = ''object''" and "value \<noteq> JNull"
    and "get value ''current'' = JStr s" and "s \<noteq> []"
    and "\<exists>c \<in> set s. c \<notin> set ''abcdefghijklmnopqrstuvwxyz0123456789-''"
  shows "validateSlug value fld pth rls fieldContext =
      [\<lparr>path = pth @ ''.current'',
        message = ''Slug contains invalid characters'',
        severity = Warning, rule = None, val = Some (JStr s),
        expected = Some (JStr ''lowercase letters, numbers, and hyphens only''),
        field = Some fieldContext,
        suggestions = Some [''Use: '' @ dq @ normalized_slug s @ dq]\<rparr>]
    \<and> (stype fld = ''slug'' \<longrightarrow>
         (\<exists>infos. validateField P value fld pth typeMap opts =
              Inr (validateSlug value fld pth (getValidationRules fld) (field_context_of fld)
                   @ infos)
            \<and> (\<forall>i \<in> set infos. severity i = Info)))"
proof -
  from assms(5) obtain c where c: "c \<in> set s" "\<not> alnum c" "c \<noteq> CHR ''-''"
    by (auto simp: alnum_def)
  then have bad: "\<not> slug_format s"
    unfolding slug_format_def using slug_match_chars by blast
  have 1: "validateSlug value fld pth rls fieldContext =
      [\<lparr>path = pth @ ''.current'',
        message = ''Slug contains invalid characters'',
        severity = Warning, rule = None, val = Some (JStr s),
        expected = Some (JStr ''lowercase letters, numbers, and hyphens only''),
        field = Some fieldContext,
        suggestions = Some [''Use: '' @ dq @ normalized_slug s @ dq]\<rparr>]"
    for rls fieldContext
    using assms(1-4) bad by (simp add: validateSlug_def slug_suggestion_normalized)
  have 2: "\<exists>infos. validateField P value fld pth typeMap opts =
              Inr (validateSlug value fld pth (getValidationRules fld) (field_context_of fld)
                   @ infos)
            \<and> (\<forall>i \<in> set infos. severity i = Info)"
    if kind: "stype fld = ''slug''"
  proof -
    from assms(1-3) obtain kvs where v: "value = JObj kvs"
      using array_has_no_current by (cases "value") auto
    from applyValidationRules_object [of P kvs "getValidationRules fld" pth fld
        "field_context_of fld"]
    obtain infos where
      "applyValidationRules P value (getValidationRules fld) pth fld (field_context_of fld)
         = Inr infos"
      "\<forall>i \<in> set infos. severity i = Info"
      unfolding v by blast
    then show ?thesis
      by (simp add: validateField.simps kind v)
  qed
  from 1 2 show ?thesis
    by blast
qed

theorem slug_warning_with_normalized_suggestion_witness:
  "typeof (JObj [(''current'', JStr ''Hello World'')]) = ''object''
   \<and> get (JObj [(''current'', JStr ''Hello World'')]) ''current'' = JStr ''Hello World''
   \<and> CHR ''H'' \<notin> set ''abcdefghijklmnopqrstuvwxyz0123456789-''
   \<and> normalized_slug ''Hello World'' = ''hello-world''
   \<and> validateSlug (JObj [(''current'', JStr ''Hello World'')]) slug_field ''slug'' []
         (field_context_of slug_field) = [slug_warning]"
proof -
  have n: "normalized_slug ''Hello World'' = ''hello-world''"
    by code_simp
  have a: "typeof (JObj [(''current'', JStr ''Hello World'')]) = ''object''"
    "JObj [(''current'', JStr ''Hello World'')] \<noteq> JNull"
    "get (JObj [(''current'', JStr ''Hello World'')]) ''current'' = JStr ''Hello World''"
    "''Hello World'' \<noteq> []"
    "\<exists>c \<in> set ''Hello World''. c \<notin> set ''abcdefghijklmnopqrstuvwxyz0123456789-''"
    by simp_all
  from slug_warning_with_normalized_suggestion [OF a, of slug_field "''slug''" "[]"
      "field_context_of slug_field"] a n
  show ?thesis
    by (simp add: slug_warning_def)
qed

subsection \<open>Numbers\<close>

text \<open>
  C5, as claimed: for a number field and a present value, the check of the kind emits an
  error at the path of the field unless the value is a finite number. It fails for
  \<^verbatim>\<open>Infinity\<close>, which is not finite: the check tests \<^verbatim>\<open>isNaN\<close> only, and a field
  with no rules accepts the value with no issue.
\<close>

theorem infinity_passes_number_check:
  "\<not> isFinite PosInf
   \<and> \<not> is_nullish (JNum PosInf)
   \<and> validateNumber test_engine (JNum PosInf) price_field ''price'' []
         (field_context_of price_field) = []
   \<and> validateField test_engine (JNum PosInf) price_field ''price'' (make_type_map [])
         no_options = Inr []"
  by code_simp

text \<open>
  C5, amended: for a number field and a present value, the check of the kind emits the
  error "Expected number" at the path of the field, and nothing else, when the value is
  not a number or is \<^verbatim>\<open>NaN\<close>. For every other number, the infinities included, all
  its issues are errors at the path of the field; it reports "Expected integer" exactly
  when an \<^verbatim>\<open>integer\<close> rule is present and the value is not an integer, so for every
  value with a fractional part; and it reports "Expected positive number" exactly when a
  \<^verbatim>\<open>positive\<close> rule is present and the value is not \<open>> 0\<close>. In \<^verbatim>\<open>validateField\<close>
  these issues come first, before those of the generic rules.
\<close>

theorem number_check:
  "((\<forall>n. value = JNum n \<longrightarrow> isNaN n) \<longrightarrow>
      validateNumber P value fld pth rls fieldContext =
        [\<lparr>path = pth,
          message = ''Expected number, got '' @ typeof value,
          severity = Error, rule = None, val = Some value,
          expected = Some (JStr ''number''), field = Some fieldContext,
          suggestions = Some [''Convert the value to a number'']\<rparr>])
   \<and> (\<forall>n. value = JNum n \<and> \<not> isNaN n \<longrightarrow>
        (\<forall>i \<in> set (validateNumber P value fld pth rls fieldContext).
            path i = pth \<and> severity i = Error
            \<and> (message i = ''Expected integer, got decimal''
                 \<or> message i = ''Expected positive number''))
        \<and> ((\<exists>i \<in> set (validateNumber P value fld pth rls fieldContext).
                message i = ''Expected integer, got decimal'')
             \<longleftrightarrow> (\<exists>r \<in> set rls. flag r = ''integer'') \<and> \<not> isInteger n)
        \<and> (has_fraction n \<longrightarrow> \<not> isInteger n)
        \<and> ((\<exists>i \<in> set (validateNumber P value fld pth rls fieldContext).
                message i = ''Expected positive number'')
             \<longleftrightarrow> (\<exists>r \<in> set rls. flag r = ''positive'') \<and> \<not> num_gt n (Fin 0)))
   \<and> (stype fld = ''number'' \<and> \<not> is_nullish value
        \<and> validateField P value fld pth typeMap opts = Inr found \<longrightarrow>
        (\<exists>ruleIssues. found =
           validateNumber P value fld pth (getValidationRules fld) (field_context_of fld)
           @ ruleIssues))"
proof -
  have 1: "validateNumber P value fld pth rls fieldContext =
        [\<lparr>path = pth,
          message = ''Expected number, got '' @ typeof value,
          severity = Error, rule = None, val = Some value,
          expected = Some (JStr ''number''), field = Some fieldContext,
          suggestions = Some [''Convert the value to a number'']\<rparr>]"
    if "\<forall>n. value = JNum n \<longrightarrow> isNaN n"
    using that by (cases "value") (auto simp: validateNumber_def)
  have le: "num_le n (Fin 0) \<longleftrightarrow> \<not> num_gt n (Fin 0)" if "\<not> isNaN n" for n
    using that by (cases n) (auto simp: num_gt_def)
  have frac: "has_fraction n \<longrightarrow> \<not> isInteger n" for n
    by (cases n) auto
  have int_rule: "(find (\<lambda>r. flag r = ''integer'') rls = None)
      \<longleftrightarrow> \<not> (\<exists>r \<in> set rls. flag r = ''integer'')"
    by (auto simp: find_None_iff)
  have pos_rule: "(find (\<lambda>r. flag r = ''positive'') rls = None)
      \<longleftrightarrow> \<not> (\<exists>r \<in> set rls. flag r = ''positive'')"
    by (auto simp: find_None_iff)
  have 2: "(\<forall>i \<in> set (validateNumber P value fld pth rls fieldContext).
            path i = pth \<and> severity i = Error
            \<and> (message i = ''Expected integer, got decimal''
                 \<or> message i = ''Expected positive number''))
        \<and> ((\<exists>i \<in> set (validateNumber P value fld pth rls fieldContext).
                message i = ''Expected integer, got decimal'')
             \<longleftrightarrow> (\<exists>r \<in> set rls. flag r = ''integer'') \<and> \<not> isInteger n)
        \<and> (has_fraction n \<longrightarrow> \<not> isInteger n)
        \<and> ((\<exists>i \<in> set (validateNumber P value fld pth rls fieldContext).
                message i = ''Expected positive number'')
             \<longleftrightarrow> (\<exists>r \<in> set rls. flag r = ''positive'') \<and> \<not> num_gt n (Fin 0))"
    if "value = JNum n" "\<not> isNaN n" for n
    using that int_rule pos_rule le [OF that(2)] frac [of n]
    by (cases "find (\<lambda>r. flag r = ''integer'') rls";
        cases "find (\<lambda>r. flag r = ''positive'') rls")
       (auto simp: validateNumber_def)
  have 3: "\<exists>ruleIssues. found =
           validateNumber P value fld pth (getValidationRules fld) (field_context_of fld)
           @ ruleIssues"
    if "stype fld = ''number''" "\<not> is_nullish value"
      "validateField P value fld pth typeMap opts = Inr found"
    using that by (auto simp: validateField.simps Let_def split: sum.splits)
  from 1 2 3 show ?thesis
    by blast
qed

theorem number_check_witness:
  "\<not> isNaN (Fin (3 / 2)) \<and> has_fraction (Fin (3 / 2)) \<and> \<not> num_gt (Fin (- 2)) (Fin 0)
   \<and> map message (validateNumber test_engine (JNum (Fin (3 / 2))) price_field ''price''
          whole_positive (field_context_of price_field))
       = [''Expected integer, got decimal'']
   \<and> map message (validateNumber test_engine (JNum (Fin (- 2))) price_field ''price''
          whole_positive (field_context_of price_field))
       = [''Expected positive number'']
   \<and> map message (validateNumber test_engine (JStr ''12'') price_field ''price''
          whole_positive (field_context_of price_field))
       = [''Expected number, got string'']"
proof -
  have a: "\<forall>n. JStr ''12'' = JNum n \<longrightarrow> isNaN n"
    by simp
  have b: "\<not> isNaN (Fin (3 / 2))" "has_fraction (Fin (3 / 2))" "\<not> num_gt (Fin (- 2)) (Fin 0)"
    by code_simp+
  have c: "map message (validateNumber test_engine (JNum (Fin (3 / 2))) price_field ''price''
          whole_positive (field_context_of price_field))
       = [''Expected integer, got decimal'']"
    "map message (validateNumber test_engine (JNum (Fin (- 2))) price_field ''price''
          whole_positive (field_context_of price_field))
       = [''Expected positive number'']"
    by code_simp+
  from number_check [of "JStr ''12''" test_engine price_field "''price''" whole_positive
      "field_context_of price_field"] a
  have "map message (validateNumber test_engine (JStr ''12'') price_field ''price''
          whole_positive (field_context_of price_field))
       = [''Expected number, got string'']"
    by simp
  with b c show ?thesis
    by simp
qed

end
